theory Spec2Isabelle
  imports Main "HOL-Library.Word" "HOL-Library.Multiset" "HOL-Library.Sublist"
    "HOL-Library.Signed_Division"
begin

section \<open>Terminal portfolio: content provider, render adapter, navigation engine\<close>

text \<open>
  A shallow embedding of the Go package \<open>tui\<close>: the blog loader and the two markdown
  helpers (the file holding \<open>GetBlogPosts\<close>, \<open>renderMarkdown\<close>,
  \<open>renderMarkdownForDisplay\<close>, \<open>getFallbackBlogPosts\<close>) and the Bubble Tea model of
  \<open>tui/model.go\<close> (\<open>NewModel\<close>, \<open>Update\<close>, \<open>View\<close> and the page builders).

  Go's \<open>int\<close> is 64 bits wide on the image the Dockerfile builds (golang on linux). The
  terminal geometry, which arrives from outside and is only copied, subtracted from and
  compared, is kept as a 64-bit word, so that \<open>width - 8\<close> and \<open>Height - 4\<close> wrap as
  they do in Go. \<open>currentPage\<close> and \<open>selectedBlogEntry\<close> are \<open>int\<close>: the code changes
  them only by \<open>++\<close> below a length and by \<open>--\<close> above zero, or assigns \<open>len - 1\<close>
  or \<open>0\<close>, so none of these operations can wrap whatever the value is.
\<close>

type_synonym goint = "64 word"
type_synonym rune = int

subsection \<open>The \<open>strings\<close> functions the code calls\<close>

definition LF :: char where
  "LF = CHR 0x0A"

definition CR :: char where
  "CR = CHR 0x0D"

text \<open>\<open>strings.Split(s, "\n")\<close>: always at least one piece; an empty input gives one
  empty piece.\<close>

fun Split_LF :: "string \<Rightarrow> string list" where
  "Split_LF [] = [[]]"
| "Split_LF (c # cs) =
     (if c = LF then [] # Split_LF cs
      else (case Split_LF cs of [] \<Rightarrow> [[c]] | l # ls \<Rightarrow> (c # l) # ls))"

text \<open>\<open>strings.ReplaceAll(s, "\r\n", "\n")\<close>, left to right, without overlap.\<close>

fun ReplaceAll_CRLF :: "string \<Rightarrow> string" where
  "ReplaceAll_CRLF (a # b # cs) =
     (if a = CR \<and> b = LF then LF # ReplaceAll_CRLF cs else a # ReplaceAll_CRLF (b # cs))"
| "ReplaceAll_CRLF cs = cs"

text \<open>\<open>strings.Join(elems, sep)\<close>.\<close>

fun strings_Join :: "string list \<Rightarrow> string \<Rightarrow> string" where
  "strings_Join [] sep = []"
| "strings_Join [x] sep = x"
| "strings_Join (x # y # ys) sep = x @ sep @ strings_Join (y # ys) sep"

text \<open>\<open>fmt.Sprintf("%d", n)\<close> for the project numbers, which start at 1.\<close>

definition digit :: "nat \<Rightarrow> char" where
  "digit d = char_of (48 + d)"

fun Itoa :: "nat \<Rightarrow> string" where
  "Itoa n = (if n < 10 then [digit n] else Itoa (n div 10) @ [digit (n mod 10)])"

declare Itoa.simps [simp del]

subsection \<open>The scrollable viewport\<close>

text \<open>
  Modelled from the spec: the viewport of \<open>github.com/charmbracelet/bubbles/viewport\<close>,
  a dependency whose source is not part of the repository. The spec (section 3) describes
  it as the top line of the visible window over a total of content lines with a visible
  height, the offset staying within \<open>0 .. max(0, totalLines - visibleHeight)\<close>, and
  (section 4.1) names its operations: scroll to offset 0, scroll to the maximum offset,
  scroll by a number of lines clamped to the valid range, and replace the content. The
  definitions below give these operations the names and the guards of the library's API
  (\<open>SetContent\<close>, \<open>GotoTop\<close>, \<open>GotoBottom\<close>, \<open>LineUp\<close>, \<open>LineDown\<close>, and the default
  key bindings of its \<open>Update\<close>). Only the vertical state is modelled.
\<close>

record viewport =
  Width :: goint
  Height :: goint
  YOffset :: int
  lines :: "string list"

definition viewport_New :: "goint \<Rightarrow> goint \<Rightarrow> viewport" where
  "viewport_New w h = \<lparr>Width = w, Height = h, YOffset = 0, lines = []\<rparr>"

definition maxYOffset :: "viewport \<Rightarrow> int" where
  "maxYOffset vp = max 0 (int (length (lines vp)) - sint (Height vp))"

definition clamp :: "int \<Rightarrow> int \<Rightarrow> int \<Rightarrow> int" where
  "clamp v low high =
     (let (low', high') = (if high < low then (high, low) else (low, high))
      in min high' (max low' v))"

definition AtTop :: "viewport \<Rightarrow> bool" where
  "AtTop vp \<longleftrightarrow> YOffset vp \<le> 0"

definition AtBottom :: "viewport \<Rightarrow> bool" where
  "AtBottom vp \<longleftrightarrow> YOffset vp \<ge> maxYOffset vp"

definition SetYOffset :: "viewport \<Rightarrow> int \<Rightarrow> viewport" where
  "SetYOffset vp n = vp\<lparr>YOffset := clamp n 0 (maxYOffset vp)\<rparr>"

definition GotoTop :: "viewport \<Rightarrow> viewport" where
  "GotoTop vp = (if AtTop vp then vp else SetYOffset vp 0)"

definition GotoBottom :: "viewport \<Rightarrow> viewport" where
  "GotoBottom vp = SetYOffset vp (maxYOffset vp)"

definition LineDown :: "viewport \<Rightarrow> int \<Rightarrow> viewport" where
  "LineDown vp n =
     (if AtBottom vp \<or> n = 0 \<or> lines vp = [] then vp else SetYOffset vp (YOffset vp + n))"

definition LineUp :: "viewport \<Rightarrow> int \<Rightarrow> viewport" where
  "LineUp vp n =
     (if AtTop vp \<or> n = 0 \<or> lines vp = [] then vp else SetYOffset vp (YOffset vp - n))"

definition SetContent :: "viewport \<Rightarrow> string \<Rightarrow> viewport" where
  "SetContent vp s =
     (let vp' = vp\<lparr>lines := Split_LF (ReplaceAll_CRLF s)\<rparr>
      in if YOffset vp' > int (length (lines vp')) - 1 then GotoBottom vp' else vp')"

definition ViewDown :: "viewport \<Rightarrow> viewport" where
  "ViewDown vp = (if AtBottom vp then vp else LineDown vp (sint (Height vp)))"

definition ViewUp :: "viewport \<Rightarrow> viewport" where
  "ViewUp vp = (if AtTop vp then vp else LineUp vp (sint (Height vp)))"

definition HalfViewDown :: "viewport \<Rightarrow> viewport" where
  "HalfViewDown vp = (if AtBottom vp then vp else LineDown vp (sint (Height vp) sdiv 2))"

definition HalfViewUp :: "viewport \<Rightarrow> viewport" where
  "HalfViewUp vp = (if AtTop vp then vp else LineUp vp (sint (Height vp) sdiv 2))"

text \<open>The lines the viewport shows: from the offset, at most \<open>Height\<close> of them.\<close>

definition visibleLines :: "viewport \<Rightarrow> string list" where
  "visibleLines vp =
     (if lines vp = [] then []
      else (let top = max 0 (YOffset vp);
                bottom = clamp (YOffset vp + sint (Height vp)) top (int (length (lines vp)))
            in take (nat bottom - nat top) (drop (nat top) (lines vp))))"

subsection \<open>Content provider: posts, entries, projects\<close>

text \<open>\<open>time.Time\<close> is an instant on the time line (here a number of nanoseconds);
  \<open>t.After(u)\<close> is \<open>u < t\<close>.\<close>

type_synonym time = int

record BlogPost =
  ID :: string
  Title :: string
  Summary :: string
  Content :: string
  Date :: time
  Tags :: "string list"
  ReadTime :: string
  Author :: string
  Published :: bool
  FilePath :: string

text \<open>An entry of \<open>ioutil.ReadDir\<close>: the two methods of \<open>os.FileInfo\<close> the code calls.\<close>

record FileInfo =
  Name :: string
  IsDir :: bool

record Project =
  Name :: string
  Description :: string
  Tech :: "string list"
  Features :: "string list"
  Status :: string
  URL :: string

record BlogEntry =
  Title :: string
  Summary :: string
  Content :: string
  Date :: string

text \<open>
  What \<open>GetBlogPosts\<close> reads from the outside: the working directory (\<open>None\<close>: the
  call returned an error), whether \<open>os.Stat\<close> of a path fails with a not-exist error,
  the listing of a directory, and the outcome of \<open>readMarkdownFile\<close> for a path, which
  reads the file and parses its front matter (\<open>None\<close>: it returned an error, be it from
  reading or from parsing). Every statement below holds whatever these are.
\<close>

record world =
  Getwd :: "string option"
  Stat_IsNotExist :: "string \<Rightarrow> bool"
  ReadDir :: "string \<Rightarrow> FileInfo list option"
  readMarkdownFile :: "string \<Rightarrow> BlogPost option"

text \<open>The lipgloss styles of \<open>model.go\<close>. The navigation bar's and the footer's width is
  reset at every geometry report, so these two carry their width.\<close>

datatype style =
  navbarStyle goint
  | activeNavStyle
  | inactiveNavStyle
  | contentStyle
  | footerStyle goint
  | cardStyle
  | selectedCardStyle
  | viewportStyle goint goint

text \<open>
  The functions of the Go standard library and of the Charm libraries that the code calls
  and whose results it only passes on. They are parameters of the model:
  \<open>filepath.Join\<close>; \<open>sort.Slice\<close> with the comparison given on elements;
  \<open>Time.Format("2006-01-02")\<close>; glamour's \<open>NewTermRenderer\<close> with a word-wrap width
  (\<open>None\<close>: error) giving a renderer (\<open>None\<close>: error); lipgloss's \<open>Style.Render\<close> and
  \<open>JoinVertical\<close>.
\<close>

record ext =
  filepath_Join :: "string list \<Rightarrow> string"
  sort_Slice :: "(BlogPost \<Rightarrow> BlogPost \<Rightarrow> bool) \<Rightarrow> BlogPost list \<Rightarrow> BlogPost list"
  Format :: "time \<Rightarrow> string"
  glamour_NewTermRenderer :: "goint \<Rightarrow> (string \<Rightarrow> string option) option"
  Render :: "style \<Rightarrow> string \<Rightarrow> string"
  JoinVertical :: "string list \<Rightarrow> string"

definition fallbackContent1 :: string where
  \<open>fallbackContent1 =
     ''# Building Terminal UIs with Bubble Tea\<newline>'' @
     ''\<newline>'' @
     ''Bubble Tea is an amazing framework for building terminal user interfaces in Go. It follows the Elm architecture pattern, making it easy to reason about state management and updates.\<newline>'' @
     ''\<newline>'' @
     ''## Key Features\<newline>'' @
     ''\<newline>'' @
     ''- **Reactive programming model**: Based on the Elm Architecture\<newline>'' @
     ''- **Built-in support**: Mouse and keyboard input handling\<newline>'' @
     ''- **Flexible styling**: Integration with Lipgloss for beautiful UIs\<newline>'' @
     ''- **Component-based**: Modular architecture for reusable components\<newline>'' @
     ''\<newline>'' @
     ''## Getting Started\<newline>'' @
     ''\<newline>'' @
     ''To get started with Bubble Tea, you need to understand three core concepts:\<newline>'' @
     ''\<newline>'' @
     ''1. **Model**: Represents your application state\<newline>'' @
     ''2. **Update**: Handles messages and updates the model  \<newline>'' @
     ''3. **View**: Renders the model to the terminal\<newline>'' @
     ''\<newline>'' @
     ''This is a fallback version of the blog post. Please check that your markdown files are properly configured in the `content/blog` directory.''\<close>

definition fallbackContent2 :: string where
  \<open>fallbackContent2 =
     ''# Modern Web Development Trends\<newline>'' @
     ''\<newline>'' @
     ''The web development landscape continues to evolve rapidly with new frameworks and tools emerging regularly.\<newline>'' @
     ''\<newline>'' @
     ''## Key Trends\<newline>'' @
     ''\<newline>'' @
     ''- **React Server Components**: Zero bundle impact rendering\<newline>'' @
     ''- **Edge Computing**: Bringing computation closer to users\<newline>'' @
     ''- **TypeScript Everywhere**: Type safety across the full stack\<newline>'' @
     ''- **AI Integration**: Copilot and AI-powered development tools\<newline>'' @
     ''\<newline>'' @
     ''## Popular Frameworks\<newline>'' @
     ''\<newline>'' @
     ''- **Next.js**: React with server-side rendering\<newline>'' @
     ''- **Nuxt**: Vue.js full-stack framework\<newline>'' @
     ''- **SvelteKit**: Svelte's full-stack solution\<newline>'' @
     ''- **Remix**: Web standards focused React framework\<newline>'' @
     ''\<newline>'' @
     ''This is a fallback version of the blog post. Please check that your markdown files are properly configured in the `content/blog` directory.''\<close>

definition fallbackContent3 :: string where
  \<open>fallbackContent3 =
     ''# Go vs Rust: A Developer's Perspective\<newline>'' @
     ''\<newline>'' @
     ''Both Go and Rust have gained significant traction in the systems programming space.\<newline>'' @
     ''\<newline>'' @
     ''## Go: Simplicity and Productivity\<newline>'' @
     ''\<newline>'' @
     ''**Strengths:**\<newline>'' @
     ''- Simple syntax and fast compilation\<newline>'' @
     ''- Built-in concurrency with goroutines\<newline>'' @
     ''- Excellent standard library\<newline>'' @
     ''- Great for web services and microservices\<newline>'' @
     ''\<newline>'' @
     ''## Rust: Safety and Performance  \<newline>'' @
     ''\<newline>'' @
     ''**Strengths:**\<newline>'' @
     ''- Memory safety without garbage collection\<newline>'' @
     ''- Zero-cost abstractions\<newline>'' @
     ''- Excellent performance\<newline>'' @
     ''- Growing ecosystem with Cargo\<newline>'' @
     ''\<newline>'' @
     ''## When to Choose What\<newline>'' @
     ''\<newline>'' @
     ''**Choose Go** for rapid development and team productivity.\<newline>'' @
     ''**Choose Rust** for maximum performance and memory safety.\<newline>'' @
     ''\<newline>'' @
     ''This is a fallback version of the blog post. Please check that your markdown files are properly configured in the `content/blog` directory.''\<close>

definition getFallbackBlogPosts :: "BlogEntry list" where
  "getFallbackBlogPosts =
     [\<lparr>Title = ''Building Terminal UIs with Bubble Tea'',
       Summary = ''A deep dive into creating beautiful terminal applications using Charm's Bubble Tea framework.'',
       Content = fallbackContent1,
       Date = ''2024-01-15''\<rparr>,
      \<lparr>Title = ''Modern Web Development Trends'',
       Summary = ''Exploring the latest trends and technologies shaping web development in 2024.'',
       Content = fallbackContent2,
       Date = ''2024-01-10''\<rparr>,
      \<lparr>Title = ''Go vs Rust: A Developer's Perspective'',
       Summary = ''Comparing two modern systems programming languages from a practical standpoint.'',
       Content = fallbackContent3,
       Date = ''2024-01-05''\<rparr>]"

text \<open>The loop over the directory listing: directories and names without the suffix
  \<open>.md\<close> are passed over, a file \<open>readMarkdownFile\<close> fails on is skipped, and a post is
  appended when it is published.\<close>

fun collectPosts :: "ext \<Rightarrow> world \<Rightarrow> string \<Rightarrow> FileInfo list \<Rightarrow> BlogPost list \<Rightarrow> BlogPost list" where
  "collectPosts X W blogDir [] posts = posts"
| "collectPosts X W blogDir (file # files) posts =
     (if IsDir file then collectPosts X W blogDir files posts
      else if suffix ''.md'' (FileInfo.Name file) then
        (case readMarkdownFile W (filepath_Join X [blogDir, FileInfo.Name file]) of
           None \<Rightarrow> collectPosts X W blogDir files posts
         | Some post \<Rightarrow>
             if Published post then collectPosts X W blogDir files (posts @ [post])
             else collectPosts X W blogDir files posts)
      else collectPosts X W blogDir files posts)"

definition After :: "time \<Rightarrow> time \<Rightarrow> bool" where
  "After t u \<longleftrightarrow> u < t"

definition toEntry :: "ext \<Rightarrow> BlogPost \<Rightarrow> BlogEntry" where
  "toEntry X post =
     \<lparr>Title = BlogPost.Title post,
      Summary = BlogPost.Summary post,
      Content = BlogPost.Content post,
      Date = Format X (BlogPost.Date post)\<rparr>"

definition GetBlogPosts :: "ext \<Rightarrow> world \<Rightarrow> BlogEntry list" where
  "GetBlogPosts X W =
     (case Getwd W of
        None \<Rightarrow> getFallbackBlogPosts
      | Some pwd \<Rightarrow>
          (let blogDir = filepath_Join X [pwd, ''content'', ''blog'']
           in if Stat_IsNotExist W blogDir then getFallbackBlogPosts
              else (case ReadDir W blogDir of
                      None \<Rightarrow> getFallbackBlogPosts
                    | Some files \<Rightarrow>
                        (let posts = collectPosts X W blogDir files [];
                             posts = sort_Slice X
                               (\<lambda>pi pj. After (BlogPost.Date pi) (BlogPost.Date pj)) posts;
                             entries = map (toEntry X) posts
                         in if length entries = 0 then getFallbackBlogPosts else entries))))"

subsection \<open>Render adapter\<close>

definition renderMarkdown :: "ext \<Rightarrow> string \<Rightarrow> goint \<Rightarrow> string" where
  "renderMarkdown X content width =
     (case glamour_NewTermRenderer X (width - 4) of
        None \<Rightarrow> content
      | Some r \<Rightarrow> (case r content of None \<Rightarrow> content | Some rendered \<Rightarrow> rendered))"

text \<open>The local variable \<open>displayWidth\<close> of \<open>renderMarkdownForDisplay\<close>, after the
  floor has been applied; \<open><s\<close> is Go's comparison of signed integers.\<close>

definition displayWidth :: "goint \<Rightarrow> goint" where
  "displayWidth width =
     (let displayWidth = width - 8
      in if displayWidth <s 40 then 40 else displayWidth)"

definition renderMarkdownForDisplay :: "ext \<Rightarrow> string \<Rightarrow> goint \<Rightarrow> string" where
  "renderMarkdownForDisplay X content width = renderMarkdown X content (displayWidth width)"

definition GetFeaturedProjects :: "Project list" where
  "GetFeaturedProjects =
     [\<lparr>Name = ''Terminal Portfolio'',
       Description = ''A beautiful terminal-based portfolio built with Bubble Tea'',
       Tech = [''Go'', ''Bubble Tea'', ''Lipgloss'', ''SSH''],
       Features = [''Responsive design'', ''Keyboard navigation'', ''Smooth scrolling'',
         ''SSH server integration''],
       Status = ''Active'',
       URL = ''https://github.com/Arpan-206/terminal-portfolio''\<rparr>,
      \<lparr>Name = ''Full-Stack Web Applications'',
       Description = ''Modern web applications using cutting-edge frameworks'',
       Tech = [''React'', ''Next.js'', ''Node.js'', ''PostgreSQL''],
       Features = [''Real-time updates'', ''Responsive UI'', ''RESTful APIs'', ''Authentication''],
       Status = ''Active'',
       URL = ''https://github.com/Arpan-206''\<rparr>,
      \<lparr>Name = ''DevOps Automation Tools'',
       Description = ''Scripts and tools for automating development workflows'',
       Tech = [''Python'', ''Bash'', ''Docker'', ''GitHub Actions''],
       Features = [''CI/CD pipelines'', ''Automated testing'', ''Deployment scripts'',
         ''Infrastructure as Code''],
       Status = ''Active'',
       URL = ''https://github.com/Arpan-206''\<rparr>,
      \<lparr>Name = ''Machine Learning Projects'',
       Description = ''AI/ML applications solving real-world problems'',
       Tech = [''Python'', ''TensorFlow'', ''PyTorch'', ''scikit-learn''],
       Features = [''Natural language processing'', ''Computer vision'', ''Data analysis'',
         ''Model deployment''],
       Status = ''Active'',
       URL = ''https://github.com/Arpan-206''\<rparr>,
      \<lparr>Name = ''Mobile Applications'',
       Description = ''Cross-platform mobile apps with native performance'',
       Tech = [''React Native'', ''Flutter'', ''Firebase'', ''SQLite''],
       Features = [''Offline-first'', ''Real-time sync'', ''Push notifications'',
         ''Cross-platform UI''],
       Status = ''Active'',
       URL = ''https://github.com/Arpan-206''\<rparr>,
      \<lparr>Name = ''Open Source Contributions'',
       Description = ''Contributing to various open source projects in the community'',
       Tech = [''Go'', ''JavaScript'', ''Python'', ''Rust''],
       Features = [''Bug fixes'', ''New features'', ''Documentation'', ''Community support''],
       Status = ''Ongoing'',
       URL = ''https://github.com/Arpan-206''\<rparr>]"

subsection \<open>The model of \<open>tui/model.go\<close>\<close>

text \<open>\<open>PageType\<close> is an \<open>int\<close> with five named values.\<close>

type_synonym PageType = int

definition HomePage :: PageType where
  "HomePage = 0"

definition ProjectsPage :: PageType where
  "ProjectsPage = 1"

definition BlogPage :: PageType where
  "BlogPage = 2"

definition AboutPage :: PageType where
  "AboutPage = 3"

definition ContactPage :: PageType where
  "ContactPage = 4"

record Model =
  width :: goint
  height :: goint
  currentPage :: PageType
  pages :: "string list"
  blogEntries :: "BlogEntry list"
  selectedBlogEntry :: int
  viewingBlogEntry :: bool
  viewport :: viewport
  ready :: bool
  lastKey :: string

text \<open>
  The messages \<open>Update\<close> tells apart. A key message carries what \<open>msg.String()\<close>
  returns and the slice \<open>msg.Runes\<close>; every pair of the two is admitted, which is more
  than a terminal sends. \<open>OtherMsg\<close> stands for every other message; the program enables
  no mouse reporting, and the viewport reacts to key and mouse messages only.
\<close>

datatype Msg =
  WindowSizeMsg goint goint
  | KeyMsg string "rune list"
  | OtherMsg

text \<open>\<open>tea.Cmd\<close>: the code returns \<open>nil\<close> or \<open>tea.Quit\<close>.\<close>

datatype Cmd = Quit

text \<open>A run-time panic: the only operation of this file that can panic is the slice
  index in \<open>getBlogEntryContent\<close>.\<close>

datatype panic = IndexOutOfRange

text \<open>The two package-level styles that \<open>Update\<close> assigns at a geometry report; the
  other styles never change.\<close>

record styles =
  navbarWidth :: goint
  footerWidth :: goint


definition homeMarkdown :: string where
  \<open>homeMarkdown =
     ''# '' @ [CHR 0xF0, CHR 0x9F, CHR 0x9A, CHR 0x80] @ '' Welcome to Arpan's Terminal Portfolio!\<newline>'' @
     ''\<newline>'' @
     ''Hi there! I'm **Arpan Pandey**, a passionate tech enthusiast and developer.\<newline>'' @
     ''\<newline>'' @
     ''## '' @ [CHR 0xF0, CHR 0x9F, CHR 0x94, CHR 0x97] @ '' Connect with me\<newline>'' @
     ''\<newline>'' @
     ''- **GitHub:** [https://github.com/Arpan-206](https://github.com/Arpan-206)\<newline>'' @
     ''- **LinkedIn:** [https://www.linkedin.com/in/arpan-pandey/](https://www.linkedin.com/in/arpan-pandey/)\<newline>'' @
     ''\<newline>'' @
     [CHR 0xE2, CHR 0x9C, CHR 0xA8] @ '' Navigate using arrow keys to explore my projects and blog posts!\<newline>'' @
     ''\<newline>'' @
     [CHR 0xF0, CHR 0x9F, CHR 0x92, CHR 0xA1] @ '' This portfolio is built with **Go**, **Bubble Tea**, and lots of '' @ [CHR 0xE2, CHR 0x9D, CHR 0xA4, CHR 0xEF, CHR 0xB8, CHR 0x8F] @ ''\<newline>'' @
     ''\<newline>'' @
     ''## '' @ [CHR 0xF0, CHR 0x9F, CHR 0x8E, CHR 0xAF] @ '' What you'll find here\<newline>'' @
     ''\<newline>'' @
     ''- My latest projects and open source contributions\<newline>'' @
     ''- Technical blog posts and tutorials\<newline>'' @
     ''- Information about my skills and experience  \<newline>'' @
     ''- Ways to get in touch and collaborate\<newline>'' @
     ''\<newline>'' @
     ''## '' @ [CHR 0xF0, CHR 0x9F, CHR 0x8C, CHR 0x9F] @ '' Features of this terminal portfolio\<newline>'' @
     ''\<newline>'' @
     ''- **Fully keyboard navigable** interface\<newline>'' @
     ''- **Responsive design** that adapts to your terminal size\<newline>'' @
     ''- **Beautiful styling** with Lipgloss and Glamour\<newline>'' @
     ''- **Smooth scrolling** for long content\<newline>'' @
     ''- **Interactive blog post viewer** with markdown rendering\<newline>'' @
     ''\<newline>'' @
     ''## '' @ [CHR 0xE2, CHR 0x9A, CHR 0xA1] @ '' Quick navigation tips\<newline>'' @
     ''\<newline>'' @
     ''- Use **'' @ [CHR 0xE2, CHR 0x86, CHR 0x90] @ '' '' @ [CHR 0xE2, CHR 0x86, CHR 0x92] @ ''** arrows to switch between main sections\<newline>'' @
     ''- Use **'' @ [CHR 0xE2, CHR 0x86, CHR 0x91] @ '' '' @ [CHR 0xE2, CHR 0x86, CHR 0x93] @ ''** arrows to navigate within sections\<newline>'' @
     ''- Press **Enter** to open blog posts\<newline>'' @
     ''- Press **Backspace** to go back from blog posts\<newline>'' @
     ''- Press **q** or **Ctrl+C** to quit\<newline>'' @
     ''\<newline>'' @
     ''---\<newline>'' @
     ''\<newline>'' @
     ''**Happy exploring!** '' @ [CHR 0xF0, CHR 0x9F, CHR 0x8E, CHR 0x89]\<close>

definition aboutMarkdown :: string where
  \<open>aboutMarkdown =
     ''# '' @ [CHR 0xF0, CHR 0x9F, CHR 0x91, CHR 0x8B] @ '' About Arpan\<newline>'' @
     ''\<newline>'' @
     ''I'm a passionate software developer and tech enthusiast with a love for creating beautiful, functional applications. My journey in technology spans across various domains, always driven by curiosity and the desire to solve complex problems.\<newline>'' @
     ''\<newline>'' @
     ''## '' @ [CHR 0xF0, CHR 0x9F, CHR 0x8E, CHR 0x93] @ '' Background & Education\<newline>'' @
     ''- **Computer Science and Engineering**\<newline>'' @
     ''- **Full-stack development** experience across multiple technologies\<newline>'' @
     ''- **Continuous learner**, always exploring new technologies and methodologies\<newline>'' @
     ''- **Active contributor** to open source projects and tech communities\<newline>'' @
     ''\<newline>'' @
     ''## '' @ [CHR 0xF0, CHR 0x9F, CHR 0x92, CHR 0xBB] @ '' Technical Expertise\<newline>'' @
     ''\<newline>'' @
     ''### '' @ [CHR 0xF0, CHR 0x9F, CHR 0x8C, CHR 0x90] @ '' Frontend Development\<newline>'' @
     ''- **React, Next.js, Vue.js** - Modern JavaScript frameworks\<newline>'' @
     ''- **TypeScript** for type-safe development\<newline>'' @
     ''- **HTML5, CSS3, Sass/SCSS** for styling\<newline>'' @
     ''- **Responsive design** and accessibility best practices\<newline>'' @
     ''- **State management** with Redux, Zustand, Context API\<newline>'' @
     ''\<newline>'' @
     ''### '' @ [CHR 0xE2, CHR 0x9A, CHR 0x99, CHR 0xEF, CHR 0xB8, CHR 0x8F] @ '' Backend Development\<newline>'' @
     ''- **Go** - Systems programming and web services\<newline>'' @
     ''- **Node.js, Express.js** - JavaScript backend development\<newline>'' @
     ''- **Python, Django, FastAPI** - Rapid development and data processing\<newline>'' @
     ''- **RESTful APIs and GraphQL**\<newline>'' @
     ''- **Microservices architecture** and distributed systems\<newline>'' @
     ''\<newline>'' @
     ''### '' @ [CHR 0xF0, CHR 0x9F, CHR 0x97, CHR 0x84, CHR 0xEF, CHR 0xB8, CHR 0x8F] @ '' Database Technologies\<newline>'' @
     ''- **PostgreSQL, MySQL** - Relational databases\<newline>'' @
     ''- **MongoDB, Redis** - NoSQL solutions\<newline>'' @
     ''- **Database design** and optimization\<newline>'' @
     ''- **Data modeling** and migration strategies\<newline>'' @
     ''\<newline>'' @
     ''### '' @ [CHR 0xE2, CHR 0x98, CHR 0x81, CHR 0xEF, CHR 0xB8, CHR 0x8F] @ '' Cloud & DevOps\<newline>'' @
     ''- **AWS, Google Cloud Platform** - Cloud infrastructure\<newline>'' @
     ''- **Docker, Kubernetes** - Containerization and orchestration\<newline>'' @
     ''- **CI/CD pipelines** with GitHub Actions, GitLab CI\<newline>'' @
     ''- **Infrastructure as Code** with Terraform\<newline>'' @
     ''- **Monitoring and logging** solutions\<newline>'' @
     ''\<newline>'' @
     ''### '' @ [CHR 0xF0, CHR 0x9F, CHR 0x9B, CHR 0xA0, CHR 0xEF, CHR 0xB8, CHR 0x8F] @ '' Development Tools & Practices\<newline>'' @
     ''- **Git version control** and collaborative workflows\<newline>'' @
     ''- **Test-driven development (TDD)** and automated testing\<newline>'' @
     ''- **Code review processes** and pair programming\<newline>'' @
     ''- **Agile methodologies** and project management\<newline>'' @
     ''- **Performance optimization** and security best practices\<newline>'' @
     ''\<newline>'' @
     ''## '' @ [CHR 0xF0, CHR 0x9F, CHR 0x8C, CHR 0x9F] @ '' Philosophy & Approach\<newline>'' @
     ''\<newline>'' @
     ''I believe in writing clean, maintainable code that not only solves problems but is also a joy to work with. Every project, whether it's a complex enterprise application or a simple CLI tool, deserves attention to detail and thoughtful architecture.\<newline>'' @
     ''\<newline>'' @
     ''**My approach emphasizes:**\<newline>'' @
     ''- User-centered design and experience\<newline>'' @
     ''- Scalable and maintainable code architecture\<newline>'' @
     ''- Collaborative development and knowledge sharing\<newline>'' @
     ''- Continuous learning and adaptation to new technologies\<newline>'' @
     ''- Open source contribution and community building\<newline>'' @
     ''\<newline>'' @
     ''## '' @ [CHR 0xF0, CHR 0x9F, CHR 0x9A, CHR 0x80] @ '' Current Focus & Interests\<newline>'' @
     ''- Building developer tools that improve productivity\<newline>'' @
     ''- Exploring systems programming with Go and Rust\<newline>'' @
     ''- Contributing to open source projects\<newline>'' @
     ''- Terminal applications and command-line interfaces\<newline>'' @
     ''- Modern web technologies and frameworks\<newline>'' @
     ''- Machine learning and AI applications\<newline>'' @
     ''- Mentoring junior developers and sharing knowledge\<newline>'' @
     ''\<newline>'' @
     ''## '' @ [CHR 0xF0, CHR 0x9F, CHR 0x8E, CHR 0xAF] @ '' Goals & Aspirations\<newline>'' @
     ''- Create impactful software that solves real-world problems\<newline>'' @
     ''- Build and maintain high-quality open source projects\<newline>'' @
     ''- Foster inclusive and collaborative development communities\<newline>'' @
     ''- Continue learning and staying current with technology trends\<newline>'' @
     ''- Share knowledge through writing, speaking, and mentoring\<newline>'' @
     ''\<newline>'' @
     ''---\<newline>'' @
     ''\<newline>'' @
     ''When I'm not coding, you might find me exploring new technologies, contributing to open source projects, writing technical blogs, or engaging with the developer community. I'm always excited to learn something new and share that knowledge with others.\<newline>'' @
     ''\<newline>'' @
     ''**Let's build something amazing together!** '' @ [CHR 0xF0, CHR 0x9F, CHR 0x8E, CHR 0x89]\<close>

definition contactMarkdown :: string where
  \<open>contactMarkdown =
     ''# '' @ [CHR 0xF0, CHR 0x9F, CHR 0x93, CHR 0xAC] @ '' Get In Touch\<newline>'' @
     ''\<newline>'' @
     ''I'm always excited to connect with fellow developers, potential collaborators, or anyone interested in technology! Whether you want to discuss a project, share ideas, or just have a friendly chat about development, I'd love to hear from you.\<newline>'' @
     ''\<newline>'' @
     ''## '' @ [CHR 0xF0, CHR 0x9F, CHR 0x94, CHR 0x97] @ '' Find Me Online\<newline>'' @
     ''\<newline>'' @
     ''### '' @ [CHR 0xF0, CHR 0x9F, CHR 0x90, CHR 0x99] @ '' GitHub\<newline>'' @
     ''**[https://github.com/Arpan-206](https://github.com/Arpan-206)**\<newline>'' @
     ''- Check out my repositories and contributions\<newline>'' @
     ''- See my latest projects and code samples\<newline>'' @
     ''- Contribute to open source projects together\<newline>'' @
     ''- Star repositories you find interesting!\<newline>'' @
     ''\<newline>'' @
     ''### '' @ [CHR 0xF0, CHR 0x9F, CHR 0x92, CHR 0xBC] @ '' LinkedIn\<newline>'' @
     ''**[https://www.linkedin.com/in/arpan-pandey/](https://www.linkedin.com/in/arpan-pandey/)**\<newline>'' @
     ''- Professional background and experience\<newline>'' @
     ''- Connect for networking and opportunities\<newline>'' @
     ''- Endorse skills and get recommendations\<newline>'' @
     ''- Stay updated with my professional journey\<newline>'' @
     ''\<newline>'' @
     ''### '' @ [CHR 0xF0, CHR 0x9F, CHR 0x93, CHR 0xA7] @ '' Email\<newline>'' @
     ''**Best reached via LinkedIn**  \<newline>'' @
     ''For direct communication, please connect with me on LinkedIn first. I'm responsive and check messages regularly!\<newline>'' @
     ''\<newline>'' @
     ''---\<newline>'' @
     ''\<newline>'' @
     ''## '' @ [CHR 0xF0, CHR 0x9F, CHR 0x92, CHR 0xBC] @ '' Professional Opportunities\<newline>'' @
     ''\<newline>'' @
     ''### '' @ [CHR 0xF0, CHR 0x9F, CHR 0xA4, CHR 0x9D] @ '' Open to Collaboration\<newline>'' @
     ''- Open source project contributions\<newline>'' @
     ''- Technical writing and documentation\<newline>'' @
     ''- Code reviews and pair programming sessions\<newline>'' @
     ''- Speaking at tech events and conferences\<newline>'' @
     ''- Mentoring and knowledge sharing\<newline>'' @
     ''\<newline>'' @
     ''### '' @ [CHR 0xF0, CHR 0x9F, CHR 0x92, CHR 0xBB] @ '' Freelance & Contract Work\<newline>'' @
     ''- Full-stack web application development\<newline>'' @
     ''- API design and backend services\<newline>'' @
     ''- Terminal applications and CLI tools\<newline>'' @
     ''- Code audits and technical consulting\<newline>'' @
     ''- DevOps and infrastructure setup\<newline>'' @
     ''\<newline>'' @
     ''### '' @ [CHR 0xF0, CHR 0x9F, CHR 0x8F, CHR 0xA2] @ '' Full-time Positions\<newline>'' @
     ''- Software Engineer / Senior Software Engineer\<newline>'' @
     ''- Full-stack Developer positions\<newline>'' @
     ''- Backend/Systems Engineer roles\<newline>'' @
     ''- DevOps Engineer opportunities\<newline>'' @
     ''- Technical Lead positions\<newline>'' @
     ''\<newline>'' @
     ''---\<newline>'' @
     ''\<newline>'' @
     ''## '' @ [CHR 0xF0, CHR 0x9F, CHR 0x8E, CHR 0xAF] @ '' Areas of Interest\<newline>'' @
     ''\<newline>'' @
     ''### '' @ [CHR 0xF0, CHR 0x9F, CHR 0x9B, CHR 0xA0, CHR 0xEF, CHR 0xB8, CHR 0x8F] @ '' Technology Domains\<newline>'' @
     ''- Go, Rust, and systems programming\<newline>'' @
     ''- Modern JavaScript/TypeScript ecosystems\<newline>'' @
     ''- Cloud-native applications and microservices\<newline>'' @
     ''- Developer tooling and CLI applications\<newline>'' @
     ''- Database design and optimization\<newline>'' @
     ''- API development and integration\<newline>'' @
     ''\<newline>'' @
     ''### '' @ [CHR 0xF0, CHR 0x9F, CHR 0x8C, CHR 0x8D] @ '' Industry Sectors\<newline>'' @
     ''- Developer tools and productivity software\<newline>'' @
     ''- Financial technology (FinTech)\<newline>'' @
     ''- Healthcare technology solutions\<newline>'' @
     ''- Educational technology platforms\<newline>'' @
     ''- Open source and community-driven projects\<newline>'' @
     ''- Startups and innovative tech companies\<newline>'' @
     ''\<newline>'' @
     ''### '' @ [CHR 0xF0, CHR 0x9F, CHR 0x92, CHR 0xA1] @ '' Project Types\<newline>'' @
     ''- Greenfield projects with modern tech stacks\<newline>'' @
     ''- Legacy system modernization and migration\<newline>'' @
     ''- Performance optimization and scalability improvements\<newline>'' @
     ''- Integration projects and API development\<newline>'' @
     ''- Automation and workflow improvement tools\<newline>'' @
     ''\<newline>'' @
     ''---\<newline>'' @
     ''\<newline>'' @
     ''## '' @ [CHR 0xF0, CHR 0x9F, CHR 0xA4, CHR 0x94] @ '' What I'm Looking For\<newline>'' @
     ''\<newline>'' @
     ''### '' @ [CHR 0xF0, CHR 0x9F, CHR 0x8E, CHR 0xAF] @ '' In Collaborations\<newline>'' @
     ''- Passionate and skilled team members\<newline>'' @
     ''- Projects that make a positive impact\<newline>'' @
     ''- Opportunities to learn and grow\<newline>'' @
     ''- Respectful and inclusive work environments\<newline>'' @
     ''- Clear communication and shared goals\<newline>'' @
     ''\<newline>'' @
     ''### '' @ [CHR 0xF0, CHR 0x9F, CHR 0x92, CHR 0xAA] @ '' In Roles\<newline>'' @
     ''- Challenging technical problems to solve\<newline>'' @
     ''- Opportunities for professional growth\<newline>'' @
     ''- Mentorship and knowledge sharing culture\<newline>'' @
     ''- Work-life balance and flexibility\<newline>'' @
     ''- Competitive compensation and benefits\<newline>'' @
     ''\<newline>'' @
     ''---\<newline>'' @
     ''\<newline>'' @
     ''## '' @ [CHR 0xF0, CHR 0x9F, CHR 0x93, CHR 0x85] @ '' Let's Connect!\<newline>'' @
     ''\<newline>'' @
     ''Whether you're interested in:\<newline>'' @
     ''- Discussing potential collaborations\<newline>'' @
     ''- Exploring job opportunities\<newline>'' @
     ''- Getting technical advice or mentorship\<newline>'' @
     ''- Sharing ideas about technology and development\<newline>'' @
     ''- Just having a friendly chat about coding\<newline>'' @
     ''\<newline>'' @
     ''I'm always happy to connect! The best way to reach me is through LinkedIn, where I'm active and responsive. Let's build something amazing together!\<newline>'' @
     ''\<newline>'' @
     [CHR 0xF0, CHR 0x9F, CHR 0x9A, CHR 0x80] @ '' **Looking forward to hearing from you!** '' @ [CHR 0xF0, CHR 0x9F, CHR 0x8E, CHR 0x89] @ ''\<newline>'' @
     ''\<newline>'' @
     ''---\<newline>'' @
     ''\<newline>'' @
     ''**P.S.** If you enjoyed this terminal portfolio, feel free to star it on GitHub or share it with others who might appreciate terminal-based applications. Your support means a lot! '' @ [CHR 0xE2, CHR 0xAD, CHR 0x90]\<close>

definition getHomeContent :: "ext \<Rightarrow> Model \<Rightarrow> string" where
  "getHomeContent X m =
     (let renderedContent = renderMarkdownForDisplay X homeMarkdown (width m)
      in Render X contentStyle renderedContent)"

definition getAboutContent :: "ext \<Rightarrow> Model \<Rightarrow> string" where
  "getAboutContent X m =
     (let renderedContent = renderMarkdownForDisplay X aboutMarkdown (width m)
      in Render X contentStyle renderedContent)"

definition getContactContent :: "ext \<Rightarrow> Model \<Rightarrow> string" where
  "getContactContent X m =
     (let renderedContent = renderMarkdownForDisplay X contactMarkdown (width m)
      in Render X contentStyle renderedContent)"

text \<open>The body of the loop over the projects in \<open>getProjectsContent\<close>, for the project
  at index \<open>i\<close>.\<close>

definition projectSection :: "nat \<Rightarrow> Project \<Rightarrow> string" where
  \<open>projectSection i project =
     ''## '' @ Itoa (i + 1) @ ''. '' @ Project.Name project @ ''\<newline>\<newline>'' @
     ''**Description:** '' @ Description project @ ''\<newline>\<newline>'' @
     ''**Technologies:**\<newline>'' @
     concat (map (\<lambda>tech. ''- '' @ tech @ ''\<newline>'') (Tech project)) @
     ''\<newline>'' @
     (if length (Features project) > 0
      then ''**Key Features:**\<newline>'' @
           concat (map (\<lambda>feature. ''- '' @ feature @ ''\<newline>'') (Features project)) @
           ''\<newline>''
      else []) @
     ''**Status:** '' @ Status project @ ''\<newline>'' @
     (if URL project \<noteq> []
      then ''**Repository:** ['' @ URL project @ '']('' @ URL project @ '')\<newline>''
      else []) @
     ''\<newline>---\<newline>\<newline>''\<close>

definition getProjectsContent :: "ext \<Rightarrow> Model \<Rightarrow> string" where
  \<open>getProjectsContent X m =
     (let projects = GetFeaturedProjects;
          markdownContent =
            ''# '' @ [CHR 0xF0, CHR 0x9F, CHR 0x9B, CHR 0xA0, CHR 0xEF, CHR 0xB8, CHR 0x8F] @
              '' Featured Projects\<newline>\<newline>'' @
            ''Here are some of my notable projects and contributions:\<newline>\<newline>'' @
            concat (map (\<lambda>(i, project). projectSection i project) (enumerate 0 projects)) @
            ''## '' @ [CHR 0xF0, CHR 0x9F, CHR 0x94, CHR 0x97] @ '' Links\<newline>\<newline>'' @
            ''Check out my GitHub profile for complete project listings, source code, and detailed documentation:\<newline>\<newline>'' @
            ''**GitHub:** [https://github.com/Arpan-206](https://github.com/Arpan-206)\<newline>\<newline>'' @
            [CHR 0xF0, CHR 0x9F, CHR 0x9A, CHR 0x80] @
              '' Always working on something new and exciting!\<newline>'';
          renderedContent = renderMarkdownForDisplay X markdownContent (width m)
      in Render X contentStyle renderedContent)\<close>

definition getBlogContent :: "ext \<Rightarrow> Model \<Rightarrow> string" where
  \<open>getBlogContent X m =
     (let cards = map (\<lambda>(i, entry).
            (let cardContent =
                   [CHR 0xF0, CHR 0x9F, CHR 0x93, CHR 0x9D] @ '' '' @ Title entry @
                   ''\<newline>\<newline>'' @ Summary entry @ ''\<newline>\<newline>'' @
                   [CHR 0xF0, CHR 0x9F, CHR 0x93, CHR 0x85] @ '' '' @ Date entry
             in if int i = selectedBlogEntry m then Render X selectedCardStyle cardContent
                else Render X cardStyle cardContent))
            (enumerate 0 (blogEntries m));
          header = Render X contentStyle
            ([CHR 0xF0, CHR 0x9F, CHR 0x93, CHR 0x9A] @ '' Blog Posts\<newline>\<newline>Use '' @
             [CHR 0xE2, CHR 0x86, CHR 0x91] @ ''/'' @ [CHR 0xE2, CHR 0x86, CHR 0x93] @
             '' to navigate posts, Enter to read, scroll within posts\<newline>'');
          content = header @ ''\<newline>'' @ strings_Join cards ''\<newline>''
      in content)\<close>

text \<open>The guard of the source compares the index with the length only from above; a
  negative index reaches the slice access, which panics.\<close>

definition getBlogEntryContent :: "ext \<Rightarrow> Model \<Rightarrow> panic + string" where
  \<open>getBlogEntryContent X m =
     (if selectedBlogEntry m \<ge> int (length (blogEntries m))
      then Inr (Render X contentStyle ''Blog entry not found'')
      else if selectedBlogEntry m < 0 then Inl IndexOutOfRange
      else (let entry = blogEntries m ! nat (selectedBlogEntry m);
                renderedContent = renderMarkdownForDisplay X (Content entry) (width m);
                header = [CHR 0xF0, CHR 0x9F, CHR 0x93, CHR 0x9D] @ '' '' @ Title entry @
                         ''\<newline>'' @ [CHR 0xF0, CHR 0x9F, CHR 0x93, CHR 0x85] @ '' '' @
                         Date entry @ ''\<newline>\<newline>''
            in Inr (Render X contentStyle (header @ renderedContent))))\<close>

definition getPageContent :: "ext \<Rightarrow> Model \<Rightarrow> panic + string" where
  "getPageContent X m =
     (if currentPage m = HomePage then Inr (getHomeContent X m)
      else if currentPage m = ProjectsPage then Inr (getProjectsContent X m)
      else if currentPage m = BlogPage then
        (if viewingBlogEntry m then getBlogEntryContent X m else Inr (getBlogContent X m))
      else if currentPage m = AboutPage then Inr (getAboutContent X m)
      else if currentPage m = ContactPage then Inr (getContactContent X m)
      else Inr ''Page not found'')"

definition updateViewportContent :: "ext \<Rightarrow> Model \<Rightarrow> panic + Model" where
  "updateViewportContent X m =
     (case getPageContent X m of
        Inl e \<Rightarrow> Inl e
      | Inr content \<Rightarrow> Inr (m\<lparr>viewport := GotoTop (SetContent (viewport m) content)\<rparr>))"

definition NewModel :: "ext \<Rightarrow> world \<Rightarrow> goint \<Rightarrow> goint \<Rightarrow> Model" where
  "NewModel X W w h =
     (let blogEntries = GetBlogPosts X W;
          vp = viewport_New w (h - 4)
      in \<lparr>width = w,
          height = h,
          currentPage = HomePage,
          pages = [''Home'', ''Projects'', ''Blog'', ''About'', ''Contact''],
          blogEntries = blogEntries,
          selectedBlogEntry = 0,
          viewingBlogEntry = False,
          viewport = vp,
          ready = False,
          lastKey = []\<rparr>)"

text \<open>The viewport's own \<open>Update\<close> with the default key map: page down, page up, half a
  page down and up, one line down and up.\<close>

fun viewport_Update :: "viewport \<Rightarrow> Msg \<Rightarrow> viewport" where
  "viewport_Update vp (KeyMsg key runes) =
     (if key = ''pgdown'' \<or> key = '' '' \<or> key = ''f'' then ViewDown vp
      else if key = ''pgup'' \<or> key = ''b'' then ViewUp vp
      else if key = ''d'' \<or> key = ''ctrl+d'' then HalfViewDown vp
      else if key = ''u'' \<or> key = ''ctrl+u'' then HalfViewUp vp
      else if key = ''down'' \<or> key = ''j'' then LineDown vp 1
      else if key = ''up'' \<or> key = ''k'' then LineUp vp 1
      else vp)"
| "viewport_Update vp msg = vp"

subsection \<open>\<open>Update\<close>\<close>

text \<open>
  \<open>Update\<close> returns the new model and a command, or panics. It is given here in the
  order of the source, one definition for each stretch of the key branch:
  the first \<open>switch\<close> (left and right), the \<open>shifted == 'G'\<close> block, the \<open>key == "g"\<close>
  block, and, after \<open>lastKey\<close> has been cleared, the second \<open>switch\<close>. A key that the
  second \<open>switch\<close> does not name falls through to the viewport's own \<open>Update\<close> at the
  end of the function. The debugging \<open>fmt.Println(shifted)\<close> writes to standard output
  and has no part in the result.
\<close>

definition shiftedRune :: "rune list \<Rightarrow> rune" where
  "shiftedRune runes = (if length runes = 1 then runes ! 0 else 0)"

definition switchPage :: "ext \<Rightarrow> Model \<Rightarrow> string \<Rightarrow> panic + Model" where
  "switchPage X m key =
     (if key = ''left'' \<or> key = ''h'' then
        (if \<not> viewingBlogEntry m then
           (if currentPage m > 0 then updateViewportContent X (m\<lparr>currentPage := currentPage m - 1\<rparr>)
            else Inr m)
         else Inr m)
      else if key = ''right'' \<or> key = ''l'' then
        (if \<not> viewingBlogEntry m then
           (if currentPage m < int (length (pages m)) - 1
            then updateViewportContent X (m\<lparr>currentPage := currentPage m + 1\<rparr>)
            else Inr m)
         else Inr m)
      else Inr m)"

definition jumpBottom :: "ext \<Rightarrow> Model \<Rightarrow> panic + Model \<times> Cmd option" where
  "jumpBottom X m =
     (let m1 = (if currentPage m = BlogPage \<and> \<not> viewingBlogEntry m
                then m\<lparr>selectedBlogEntry := int (length (blogEntries m)) - 1\<rparr> else m);
          m2 = m1\<lparr>viewport := GotoBottom (viewport m1)\<rparr>
      in case getPageContent X m2 of
           Inl e \<Rightarrow> Inl e
         | Inr content \<Rightarrow> Inr (m2\<lparr>viewport := SetContent (viewport m2) content\<rparr>, None))"

definition chordKey :: "ext \<Rightarrow> Model \<Rightarrow> panic + Model \<times> Cmd option" where
  "chordKey X m =
     (if lastKey m = ''g'' then
        (let m1 = m\<lparr>viewport := GotoTop (viewport m)\<rparr>;
             m2 = (if currentPage m1 = BlogPage \<and> \<not> viewingBlogEntry m1
                   then m1\<lparr>selectedBlogEntry := 0\<rparr> else m1)
         in case updateViewportContent X m2 of
              Inl e \<Rightarrow> Inl e
            | Inr m3 \<Rightarrow> Inr (m3\<lparr>lastKey := []\<rparr>, None))
      else Inr (m\<lparr>lastKey := ''g''\<rparr>, None))"

definition switchKey :: "ext \<Rightarrow> Model \<Rightarrow> string \<Rightarrow> rune list \<Rightarrow> panic + Model \<times> Cmd option" where
  "switchKey X m key runes =
     (if key = ''ctrl+u'' then Inr (m\<lparr>viewport := LineUp (viewport m) 10\<rparr>, None)
      else if key = ''ctrl+d'' then Inr (m\<lparr>viewport := LineDown (viewport m) 10\<rparr>, None)
      else if key = ''up'' \<or> key = ''k'' then
        (if currentPage m = BlogPage \<and> \<not> viewingBlogEntry m then
           (if selectedBlogEntry m > 0 then
              (case updateViewportContent X (m\<lparr>selectedBlogEntry := selectedBlogEntry m - 1\<rparr>) of
                 Inl e \<Rightarrow> Inl e | Inr m' \<Rightarrow> Inr (m', None))
            else Inr (m, None))
         else if viewingBlogEntry m \<or> currentPage m \<noteq> BlogPage then
           Inr (m\<lparr>viewport := viewport_Update (viewport m) (KeyMsg key runes)\<rparr>, None)
         else Inr (m, None))
      else if key = ''down'' \<or> key = ''j'' then
        (if currentPage m = BlogPage \<and> \<not> viewingBlogEntry m then
           (if selectedBlogEntry m < int (length (blogEntries m)) - 1 then
              (case updateViewportContent X (m\<lparr>selectedBlogEntry := selectedBlogEntry m + 1\<rparr>) of
                 Inl e \<Rightarrow> Inl e | Inr m' \<Rightarrow> Inr (m', None))
            else Inr (m, None))
         else if viewingBlogEntry m \<or> currentPage m \<noteq> BlogPage then
           Inr (m\<lparr>viewport := viewport_Update (viewport m) (KeyMsg key runes)\<rparr>, None)
         else Inr (m, None))
      else if key = ''enter'' then
        (if currentPage m = BlogPage \<and> \<not> viewingBlogEntry m then
           (case updateViewportContent X (m\<lparr>viewingBlogEntry := True\<rparr>) of
              Inl e \<Rightarrow> Inl e | Inr m' \<Rightarrow> Inr (m', None))
         else Inr (m, None))
      else if key = ''backspace'' then
        (if viewingBlogEntry m then
           (case updateViewportContent X (m\<lparr>viewingBlogEntry := False\<rparr>) of
              Inl e \<Rightarrow> Inl e | Inr m' \<Rightarrow> Inr (m', None))
         else Inr (m, None))
      else Inr (m\<lparr>viewport := viewport_Update (viewport m) (KeyMsg key runes)\<rparr>, None))"

definition Update :: "ext \<Rightarrow> Model \<Rightarrow> Msg \<Rightarrow> panic + Model \<times> Cmd option" where
  "Update X m msg =
     (case msg of
        WindowSizeMsg msgWidth msgHeight \<Rightarrow>
          (let m1 = (if \<not> ready m
                     then m\<lparr>viewport := viewport_New msgWidth (msgHeight - 4), ready := True\<rparr>
                     else m\<lparr>viewport := (viewport m)\<lparr>Width := msgWidth, Height := msgHeight - 4\<rparr>\<rparr>);
               m2 = m1\<lparr>width := msgWidth, height := msgHeight\<rparr>
           in case updateViewportContent X m2 of
                Inl e \<Rightarrow> Inl e
              | Inr m3 \<Rightarrow> Inr (m3\<lparr>viewport := viewport_Update (viewport m3) msg\<rparr>, None))
      | KeyMsg key runes \<Rightarrow>
          (let shifted = shiftedRune runes
           in if key = ''ctrl+c'' \<or> key = ''q'' then Inr (m, Some Quit)
              else (case switchPage X m key of
                      Inl e \<Rightarrow> Inl e
                    | Inr m1 \<Rightarrow>
                        if shifted = 71 then jumpBottom X m1
                        else if key = ''g'' then chordKey X m1
                        else switchKey X (m1\<lparr>lastKey := []\<rparr>) key runes))
      | OtherMsg \<Rightarrow> Inr (m\<lparr>viewport := viewport_Update (viewport m) msg\<rparr>, None))"

text \<open>The effect of \<open>Update\<close> on the two package-level styles: a geometry report sets the
  width of both, every other message leaves them.\<close>

definition Update_styles :: "styles \<Rightarrow> Msg \<Rightarrow> styles" where
  "Update_styles G msg =
     (case msg of
        WindowSizeMsg msgWidth msgHeight \<Rightarrow> \<lparr>navbarWidth = msgWidth, footerWidth = msgWidth\<rparr>
      | _ \<Rightarrow> G)"

subsection \<open>\<open>View\<close>\<close>

definition renderNavbar :: "ext \<Rightarrow> styles \<Rightarrow> Model \<Rightarrow> string" where
  \<open>renderNavbar X G m =
     (let navItems = map (\<lambda>(i, page).
            if int i = currentPage m then Render X activeNavStyle page
            else Render X inactiveNavStyle page) (enumerate 0 (pages m));
          navbar = strings_Join navItems '' ''
      in Render X (navbarStyle (navbarWidth G))
           ([CHR 0xF0, CHR 0x9F, CHR 0x93, CHR 0x8D] @ '' Arpan's Portfolio  |  '' @ navbar))\<close>

definition renderFooter :: "ext \<Rightarrow> styles \<Rightarrow> Model \<Rightarrow> string" where
  \<open>renderFooter X G m =
     (let helpText =
            (if viewingBlogEntry m then
               [CHR 0xF0, CHR 0x9F, CHR 0x93, CHR 0x96] @ '' Reading blog post '' @ [CHR 0xE2, CHR 0x80, CHR 0xA2] @ '' '' @ [CHR 0xE2, CHR 0x86, CHR 0x91] @ ''/'' @ [CHR 0xE2, CHR 0x86, CHR 0x93] @ '' PgUp/PgDn to scroll '' @ [CHR 0xE2, CHR 0x80, CHR 0xA2] @ '' Backspace to return '' @ [CHR 0xE2, CHR 0x80, CHR 0xA2] @ '' q/Ctrl+C to quit''
             else if currentPage m = BlogPage then
               [CHR 0xF0, CHR 0x9F, CHR 0x93, CHR 0x9A] @ '' Blog posts '' @ [CHR 0xE2, CHR 0x80, CHR 0xA2] @ '' '' @ [CHR 0xE2, CHR 0x86, CHR 0x91] @ ''/'' @ [CHR 0xE2, CHR 0x86, CHR 0x93] @ '' navigate '' @ [CHR 0xE2, CHR 0x80, CHR 0xA2] @ '' Enter to read '' @ [CHR 0xE2, CHR 0x80, CHR 0xA2] @ '' '' @ [CHR 0xE2, CHR 0x86, CHR 0x90] @ ''/'' @ [CHR 0xE2, CHR 0x86, CHR 0x92] @ '' change page '' @ [CHR 0xE2, CHR 0x80, CHR 0xA2] @ '' q/Ctrl+C to quit''
             else
               [CHR 0xF0, CHR 0x9F, CHR 0xA7, CHR 0xAD] @ '' Portfolio navigation '' @ [CHR 0xE2, CHR 0x80, CHR 0xA2] @ '' '' @ [CHR 0xE2, CHR 0x86, CHR 0x90] @ ''/'' @ [CHR 0xE2, CHR 0x86, CHR 0x92] @ '' navigate pages '' @ [CHR 0xE2, CHR 0x80, CHR 0xA2] @ '' '' @ [CHR 0xE2, CHR 0x86, CHR 0x91] @ ''/'' @ [CHR 0xE2, CHR 0x86, CHR 0x93] @ '' scroll content '' @ [CHR 0xE2, CHR 0x80, CHR 0xA2] @ '' q/Ctrl+C to quit'')
      in Render X (footerStyle (footerWidth G)) helpText)\<close>

text \<open>Modelled from the spec: the viewport's \<open>View\<close>, the currently visible window of
  the content, drawn by lipgloss at the viewport's size.\<close>

definition viewport_View :: "ext \<Rightarrow> viewport \<Rightarrow> string" where
  \<open>viewport_View X vp =
     Render X (viewportStyle (Width vp) (Height vp)) (strings_Join (visibleLines vp) ''\<newline>'')\<close>

definition View :: "ext \<Rightarrow> styles \<Rightarrow> Model \<Rightarrow> string" where
  "View X G m =
     (if \<not> ready m then ''Loading...''
      else (let navbar = renderNavbar X G m;
                footer = renderFooter X G m
            in JoinVertical X [navbar, viewport_View X (viewport m), footer]))"

subsection \<open>The event loop, reachable states and the state invariant\<close>

text \<open>Modelled from the spec: the event loop of Bubble Tea, which is not part of the
  repository. Section 5 of the spec: a session processes one event at a time to
  completion; the quit action ends the session, so no later event is processed.\<close>

fun runLoop :: "ext \<Rightarrow> Model \<Rightarrow> Msg list \<Rightarrow> panic + Model" where
  "runLoop X m [] = Inr m"
| "runLoop X m (msg # msgs) =
     (case Update X m msg of
        Inl e \<Rightarrow> Inl e
      | Inr (m', cmd) \<Rightarrow> if cmd = Some Quit then Inr m' else runLoop X m' msgs)"

text \<open>The states a session can be in: the model \<open>NewModel\<close> builds for some geometry,
  and every model \<open>Update\<close> returns from such a state for some message.\<close>

inductive reachable :: "ext \<Rightarrow> world \<Rightarrow> Model \<Rightarrow> bool" for X :: ext and W :: world where
  start: "reachable X W (NewModel X W w h)"
| step: "reachable X W m \<Longrightarrow> Update X m msg = Inr (m', cmd) \<Longrightarrow> reachable X W m'"

text \<open>The invariant of the session state: the five pages, a page index among them, a
  non-empty list of entries, a selection inside it, and a viewport offset that is not
  negative.\<close>

definition wf :: "Model \<Rightarrow> bool" where
  "wf m \<longleftrightarrow>
     pages m = [''Home'', ''Projects'', ''Blog'', ''About'', ''Contact''] \<and>
     0 \<le> currentPage m \<and> currentPage m \<le> 4 \<and>
     blogEntries m \<noteq> [] \<and>
     0 \<le> selectedBlogEntry m \<and> selectedBlogEntry m < int (length (blogEntries m)) \<and>
     0 \<le> YOffset (viewport m)"

text \<open>The logical actions of the spec as sets of key messages. A letter key arrives
  with its rune; the only rune \<open>Update\<close> looks at is \<open>G\<close> (71), which belongs to the
  go-to-bottom action alone.\<close>

definition isKey :: "string list \<Rightarrow> Msg \<Rightarrow> bool" where
  "isKey keys msg =
     (case msg of KeyMsg key runes \<Rightarrow> key \<in> set keys \<and> shiftedRune runes \<noteq> 71 | _ \<Rightarrow> False)"

definition moveLeft :: "Msg \<Rightarrow> bool" where
  "moveLeft = isKey [''left'', ''h'']"

definition moveRight :: "Msg \<Rightarrow> bool" where
  "moveRight = isKey [''right'', ''l'']"

definition moveUp :: "Msg \<Rightarrow> bool" where
  "moveUp = isKey [''up'', ''k'']"

definition moveDown :: "Msg \<Rightarrow> bool" where
  "moveDown = isKey [''down'', ''j'']"

definition chordG :: "Msg \<Rightarrow> bool" where
  "chordG = isKey [''g'']"



text \<open>Shift+g: the key string and the single rune are both \<open>G\<close>.\<close>

definition gotoBottomKey :: Msg where
  "gotoBottomKey = KeyMsg ''G'' [71]"

subsection \<open>The listing in the spec's words\<close>

text \<open>
  Section 4.3 of the spec: the posts of the content store that are published, here in
  the order of the directory listing. A name that is a directory or lacks the suffix
  \<open>.md\<close> is no post, and neither is a file that cannot be read or parsed.
\<close>

definition publishedPosts :: "ext \<Rightarrow> world \<Rightarrow> BlogPost list" where
  "publishedPosts X W =
     (case Getwd W of
        None \<Rightarrow> []
      | Some pwd \<Rightarrow>
          (let blogDir = filepath_Join X [pwd, ''content'', ''blog'']
           in if Stat_IsNotExist W blogDir then []
              else (case ReadDir W blogDir of
                      None \<Rightarrow> []
                    | Some files \<Rightarrow>
                        filter Published
                          (List.map_filter
                             (\<lambda>file. readMarkdownFile W (filepath_Join X [blogDir, FileInfo.Name file]))
                             (filter (\<lambda>file. \<not> IsDir file \<and> suffix ''.md'' (FileInfo.Name file))
                                files)))))"

text \<open>What the documentation of \<open>sort.Slice\<close> promises for the comparison
  \<open>GetBlogPosts\<close> passes: the result holds the same posts, and no post comes before one
  that is dated after it. It promises no order among posts of equal date.\<close>

definition newestFirst :: "BlogPost list \<Rightarrow> bool" where
  "newestFirst ps = sorted_wrt (\<lambda>p q. BlogPost.Date q \<le> BlogPost.Date p) ps"

definition sort_Slice_sorts :: "ext \<Rightarrow> bool" where
  "sort_Slice_sorts X \<longleftrightarrow>
     (\<forall>ps. mset (sort_Slice X (\<lambda>pi pj. After (BlogPost.Date pi) (BlogPost.Date pj)) ps) = mset ps \<and>
           newestFirst (sort_Slice X (\<lambda>pi pj. After (BlogPost.Date pi) (BlogPost.Date pj)) ps))"

subsection \<open>A concrete environment\<close>

text \<open>
  An instance of the library parameters and of the outside world, on which the
  definitions can be run. \<open>insertionSort\<close> is the insertion sort \<open>sort.Slice\<close> applies
  to short slices: each element in turn moves left for as long as it is less than its
  left neighbour. \<open>sink\<close> takes the sorted prefix with its last element first.
\<close>

fun sink :: "('a \<Rightarrow> 'a \<Rightarrow> bool) \<Rightarrow> 'a \<Rightarrow> 'a list \<Rightarrow> 'a list" where
  "sink lt x [] = [x]"
| "sink lt x (y # rs) = (if lt x y then y # sink lt x rs else x # y # rs)"

definition insertionSort :: "('a \<Rightarrow> 'a \<Rightarrow> bool) \<Rightarrow> 'a list \<Rightarrow> 'a list" where
  "insertionSort lt xs = rev (foldl (\<lambda>rs x. sink lt x rs) [] xs)"

definition X0 :: ext where
  \<open>X0 = \<lparr>filepath_Join = (\<lambda>elems. strings_Join elems ''/''),
         sort_Slice = insertionSort,
         Format = (\<lambda>t. ''day '' @ Itoa (nat t)),
         glamour_NewTermRenderer = (\<lambda>wrap. Some (\<lambda>content. Some content)),
         Render = (\<lambda>st s. s),
         JoinVertical = (\<lambda>strs. strings_Join strs ''\<newline>'')\<rparr>\<close>

definition postA :: BlogPost where
  "postA = \<lparr>ID = ''02-a'', BlogPost.Title = ''A'', BlogPost.Summary = ''first'', BlogPost.Content = ''# A'', BlogPost.Date = 20240201,
            Tags = [], ReadTime = [], Author = [], Published = True,
            FilePath = ''/app/content/blog/02-a.md''\<rparr>"

definition postB :: BlogPost where
  "postB = \<lparr>ID = ''01-b'', BlogPost.Title = ''B'', BlogPost.Summary = ''second'', BlogPost.Content = ''# B'', BlogPost.Date = 20240101,
            Tags = [], ReadTime = [], Author = [], Published = True,
            FilePath = ''/app/content/blog/01-b.md''\<rparr>"

definition postDraft :: BlogPost where
  "postDraft = \<lparr>ID = ''draft'', BlogPost.Title = ''D'', BlogPost.Summary = ''unfinished'', BlogPost.Content = ''# D'',
            BlogPost.Date = 20240301, Tags = [], ReadTime = [], Author = [], Published = False,
            FilePath = ''/app/content/blog/draft.md''\<rparr>"

text \<open>A blog directory with the two published posts \<open>B\<close> and \<open>A\<close> (listed by name, so
  the older one first), a draft, a file that cannot be parsed, and a subdirectory.\<close>

definition W0 :: world where
  "W0 = \<lparr>Getwd = Some ''/app'',
         Stat_IsNotExist = (\<lambda>path. False),
         ReadDir = (\<lambda>path. if path = ''/app/content/blog''
            then Some [\<lparr>FileInfo.Name = ''01-b.md'', IsDir = False\<rparr>, \<lparr>FileInfo.Name = ''02-a.md'', IsDir = False\<rparr>,
                       \<lparr>FileInfo.Name = ''broken.md'', IsDir = False\<rparr>, \<lparr>FileInfo.Name = ''draft.md'', IsDir = False\<rparr>,
                       \<lparr>FileInfo.Name = ''img'', IsDir = True\<rparr>]
            else None),
         readMarkdownFile = (\<lambda>path.
            if path = ''/app/content/blog/01-b.md'' then Some postB
            else if path = ''/app/content/blog/02-a.md'' then Some postA
            else if path = ''/app/content/blog/draft.md'' then Some postDraft
            else None)\<rparr>"

text \<open>A blog directory that holds a draft only.\<close>

definition W1 :: world where
  "W1 = \<lparr>Getwd = Some ''/app'',
         Stat_IsNotExist = (\<lambda>path. False),
         ReadDir = (\<lambda>path. if path = ''/app/content/blog''
            then Some [\<lparr>FileInfo.Name = ''draft.md'', IsDir = False\<rparr>] else None),
         readMarkdownFile = (\<lambda>path.
            if path = ''/app/content/blog/draft.md'' then Some postDraft else None)\<rparr>"


text \<open>A blog directory with two published posts of the same date.\<close>

definition postC :: BlogPost where
  "postC = \<lparr>ID = ''c'', BlogPost.Title = ''C'', BlogPost.Summary = ''third'',
            BlogPost.Content = ''# C'', BlogPost.Date = 20240401,
            Tags = [], ReadTime = [], Author = [], Published = True,
            FilePath = ''/app/content/blog/c.md''\<rparr>"

definition postD :: BlogPost where
  "postD = \<lparr>ID = ''d'', BlogPost.Title = ''D'', BlogPost.Summary = ''fourth'',
            BlogPost.Content = ''# D'', BlogPost.Date = 20240401,
            Tags = [], ReadTime = [], Author = [], Published = True,
            FilePath = ''/app/content/blog/d.md''\<rparr>"

definition W2 :: world where
  "W2 = \<lparr>Getwd = Some ''/app'',
         Stat_IsNotExist = (\<lambda>path. False),
         ReadDir = (\<lambda>path. if path = ''/app/content/blog''
            then Some [\<lparr>FileInfo.Name = ''c.md'', IsDir = False\<rparr>,
                       \<lparr>FileInfo.Name = ''d.md'', IsDir = False\<rparr>]
            else None),
         readMarkdownFile = (\<lambda>path.
            if path = ''/app/content/blog/c.md'' then Some postC
            else if path = ''/app/content/blog/d.md'' then Some postD
            else None)\<rparr>"

text \<open>Another sort that keeps the promise of \<open>sort.Slice\<close>, here only to show what the
  promise leaves open: an element moves left also past its equals, so posts of equal
  date come out in reverse.\<close>

fun sinkPastEquals :: "('a \<Rightarrow> 'a \<Rightarrow> bool) \<Rightarrow> 'a \<Rightarrow> 'a list \<Rightarrow> 'a list" where
  "sinkPastEquals lt x [] = [x]"
| "sinkPastEquals lt x (y # rs) =
     (if \<not> lt y x then y # sinkPastEquals lt x rs else x # y # rs)"

definition tieReversingSort :: "('a \<Rightarrow> 'a \<Rightarrow> bool) \<Rightarrow> 'a list \<Rightarrow> 'a list" where
  "tieReversingSort lt xs = rev (foldl (\<lambda>rs x. sinkPastEquals lt x rs) [] xs)"



text \<open>A session on this environment, in an 80 by 24 terminal: its first state, and the
  state after a sequence of messages.\<close>

definition session0 :: Model where
  "session0 = NewModel X0 W0 80 24"

definition sessionAfter :: "Msg list \<Rightarrow> Model" where
  "sessionAfter msgs = projr (runLoop X0 session0 msgs)"

text \<open>The same for the blog directory that holds a draft only, where the entries are the
  fallback entries.\<close>

definition fallbackSession :: "Msg list \<Rightarrow> Model" where
  "fallbackSession msgs = projr (runLoop X0 (NewModel X0 W1 80 24) msgs)"

subsection \<open>Auxiliary notions for the proofs\<close>

text \<open>The model \<open>updateViewportContent\<close> returns when the page builder does not panic:
  the content of the current page is set and the viewport is at the top.\<close>

definition reloaded :: "ext \<Rightarrow> Model \<Rightarrow> Model" where
  "reloaded X m = m\<lparr>viewport := GotoTop (SetContent (viewport m) (projr (getPageContent X m)))\<rparr>"

text \<open>What no key message changes: readiness, the entries, the pages and the geometry.\<close>

definition sameSession :: "Model \<Rightarrow> Model \<Rightarrow> bool" where
  "sameSession m m' \<longleftrightarrow> ready m' = ready m \<and> blogEntries m' = blogEntries m \<and>
     pages m' = pages m \<and> width m' = width m \<and> height m' = height m"

text \<open>The model the \<open>key == "g"\<close> block returns when the chord is pending and the page
  builder does not panic: viewport at the top, on the Blog index the first entry
  selected, the content reloaded, the chord cleared.\<close>

definition jumpedTop :: "ext \<Rightarrow> Model \<Rightarrow> Model" where
  "jumpedTop X m =
     (reloaded X (if currentPage m = BlogPage \<and> \<not> viewingBlogEntry m
                  then m\<lparr>viewport := GotoTop (viewport m), selectedBlogEntry := 0\<rparr>
                  else m\<lparr>viewport := GotoTop (viewport m)\<rparr>))\<lparr>lastKey := []\<rparr>"

section \<open>Properties\<close>

subsection \<open>Viewport, content and single steps\<close>

lemma Split_LF_nonempty: "Split_LF s \<noteq> []"
  by (induction s) (auto split: list.splits)

lemma maxYOffset_nonneg: "0 \<le> maxYOffset vp"
  by (simp add: maxYOffset_def)

lemma YOffset_SetYOffset: "0 \<le> YOffset (SetYOffset vp n)"
  using maxYOffset_nonneg [of vp] by (simp add: SetYOffset_def clamp_def)

lemma YOffset_GotoTop: "0 \<le> YOffset vp \<Longrightarrow> YOffset (GotoTop vp) = 0"
  using maxYOffset_nonneg [of vp] by (auto simp: GotoTop_def AtTop_def SetYOffset_def clamp_def)

lemma YOffset_GotoBottom: "0 \<le> YOffset (GotoBottom vp)"
  by (simp add: GotoBottom_def YOffset_SetYOffset)

lemma YOffset_LineUp: "0 \<le> YOffset vp \<Longrightarrow> 0 \<le> YOffset (LineUp vp n)"
  by (simp add: LineUp_def YOffset_SetYOffset)

lemma YOffset_LineDown: "0 \<le> YOffset vp \<Longrightarrow> 0 \<le> YOffset (LineDown vp n)"
  by (simp add: LineDown_def YOffset_SetYOffset)

lemma YOffset_SetContent: "0 \<le> YOffset vp \<Longrightarrow> 0 \<le> YOffset (SetContent vp s)"
  by (simp add: SetContent_def Let_def YOffset_GotoBottom)

lemma YOffset_viewport_Update: "0 \<le> YOffset vp \<Longrightarrow> 0 \<le> YOffset (viewport_Update vp msg)"
  by (cases msg)
    (simp_all add: ViewDown_def ViewUp_def HalfViewDown_def HalfViewUp_def
      YOffset_LineUp YOffset_LineDown)

lemma lines_GotoTop: "lines (GotoTop vp) = lines vp"
  by (simp add: GotoTop_def SetYOffset_def)

lemma lines_SetContent: "lines (SetContent vp s) = Split_LF (ReplaceAll_CRLF s)"
  by (simp add: SetContent_def Let_def GotoBottom_def SetYOffset_def)

lemma GotoTop_idem: "GotoTop (GotoTop vp) = GotoTop vp"
  using maxYOffset_nonneg [of vp]
  by (auto simp: GotoTop_def AtTop_def SetYOffset_def clamp_def maxYOffset_def)

lemma SetContent_same:
  assumes "lines v = Split_LF (ReplaceAll_CRLF s)" and "YOffset v \<le> 0"
  shows "SetContent v s = v"
proof -
  have ne: "0 < int (length (Split_LF (ReplaceAll_CRLF s)))"
    using Split_LF_nonempty [of "ReplaceAll_CRLF s"] by simp
  have eq: "v\<lparr>lines := Split_LF (ReplaceAll_CRLF s)\<rparr> = v"
    using assms(1) by simp
  have "\<not> int (length (Split_LF (ReplaceAll_CRLF s))) - 1 < YOffset v"
    using assms(2) ne by linarith
  then show ?thesis
    unfolding SetContent_def Let_def eq by (simp add: assms(1))
qed

lemma YOffset_GotoTop_le: "YOffset (GotoTop vp) \<le> 0"
  using maxYOffset_nonneg [of vp]
  by (auto simp: GotoTop_def AtTop_def SetYOffset_def clamp_def)

lemma reload_idem:
  "GotoTop (SetContent (GotoTop (SetContent vp s)) s) = GotoTop (SetContent vp s)"
proof -
  have "SetContent (GotoTop (SetContent vp s)) s = GotoTop (SetContent vp s)"
    by (rule SetContent_same) (simp_all add: lines_GotoTop lines_SetContent YOffset_GotoTop_le)
  then show ?thesis by (simp add: GotoTop_idem)
qed

lemma getPageContent_ok:
  "0 \<le> selectedBlogEntry m \<Longrightarrow> getPageContent X m = Inr (projr (getPageContent X m))"
  by (simp add: getPageContent_def getBlogEntryContent_def Let_def)

lemma updateViewportContent_ok:
  "0 \<le> selectedBlogEntry m \<Longrightarrow>
   updateViewportContent X m =
     Inr (m\<lparr>viewport := GotoTop (SetContent (viewport m) (projr (getPageContent X m)))\<rparr>)"
proof -
  assume "0 \<le> selectedBlogEntry m"
  then obtain s where s: "getPageContent X m = Inr s"
    using getPageContent_ok by blast
  then show ?thesis by (simp add: updateViewportContent_def)
qed

lemma reloaded_fields [simp]:
  "currentPage (reloaded X m) = currentPage m"
  "selectedBlogEntry (reloaded X m) = selectedBlogEntry m"
  "viewingBlogEntry (reloaded X m) = viewingBlogEntry m"
  "blogEntries (reloaded X m) = blogEntries m"
  "pages (reloaded X m) = pages m"
  "lastKey (reloaded X m) = lastKey m"
  "ready (reloaded X m) = ready m"
  "width (reloaded X m) = width m"
  "height (reloaded X m) = height m"
  by (simp_all add: reloaded_def)

lemma updateViewportContent_reloaded:
  "0 \<le> selectedBlogEntry m \<Longrightarrow> updateViewportContent X m = Inr (reloaded X m)"
  by (simp add: reloaded_def updateViewportContent_ok)

lemma YOffset_reloaded: "0 \<le> YOffset (viewport m) \<Longrightarrow> YOffset (viewport (reloaded X m)) = 0"
  by (simp add: reloaded_def YOffset_GotoTop YOffset_SetContent)

lemma wf_reloaded:
  "wf m \<Longrightarrow> wf (reloaded X m)"
  by (simp add: wf_def YOffset_reloaded)

lemma wf_reloaded_iff:
  "0 \<le> YOffset (viewport m) \<Longrightarrow> wf (reloaded X m) = wf m"
  by (simp add: wf_def YOffset_reloaded)

lemma switchKey_up_index:
  assumes "key = ''up'' \<or> key = ''k''" "currentPage m = BlogPage" "\<not> viewingBlogEntry m"
    "0 \<le> selectedBlogEntry m"
  shows "switchKey X m key runes =
    Inr (if 0 < selectedBlogEntry m
         then reloaded X (m\<lparr>selectedBlogEntry := selectedBlogEntry m - 1\<rparr>) else m, None)"
proof -
  have k: "key \<noteq> ''ctrl+u''" "key \<noteq> ''ctrl+d''"
    using assms(1) by auto
  have "updateViewportContent X (m\<lparr>selectedBlogEntry := selectedBlogEntry m - 1\<rparr>) =
      Inr (reloaded X (m\<lparr>selectedBlogEntry := selectedBlogEntry m - 1\<rparr>))"
    if "0 < selectedBlogEntry m"
    using that by (simp add: updateViewportContent_reloaded)
  then show ?thesis
    using k assms(1-3) by (simp add: switchKey_def)
qed

lemma switchKey_down_index:
  assumes "key = ''down'' \<or> key = ''j''" "currentPage m = BlogPage" "\<not> viewingBlogEntry m"
    "0 \<le> selectedBlogEntry m"
  shows "switchKey X m key runes =
    Inr (if selectedBlogEntry m < int (length (blogEntries m)) - 1
         then reloaded X (m\<lparr>selectedBlogEntry := selectedBlogEntry m + 1\<rparr>) else m, None)"
proof -
  have k: "key \<noteq> ''ctrl+u''" "key \<noteq> ''ctrl+d''" "key \<noteq> ''up''" "key \<noteq> ''k''"
    using assms(1) by auto
  have "updateViewportContent X (m\<lparr>selectedBlogEntry := selectedBlogEntry m + 1\<rparr>) =
      Inr (reloaded X (m\<lparr>selectedBlogEntry := selectedBlogEntry m + 1\<rparr>))"
    using assms(4) by (simp add: updateViewportContent_reloaded)
  then show ?thesis
    using k assms(1-3) by (simp add: switchKey_def)
qed

lemma switchKey_scroll:
  assumes "key = ''up'' \<or> key = ''k'' \<or> key = ''down'' \<or> key = ''j''"
    "viewingBlogEntry m \<or> currentPage m \<noteq> BlogPage"
  shows "switchKey X m key runes =
    Inr (m\<lparr>viewport := viewport_Update (viewport m) (KeyMsg key runes)\<rparr>, None)"
proof -
  have c: "\<not> (currentPage m = BlogPage \<and> \<not> viewingBlogEntry m)"
    using assms(2) by blast
  consider "key = ''up''" | "key = ''k''" | "key = ''down''" | "key = ''j''"
    using assms(1) by blast
  then show ?thesis
  proof cases
    case 1
    show ?thesis
      unfolding switchKey_def 1 if_not_P [OF c] if_P [OF assms(2)]
      by (simp del: viewport_Update.simps)
  next
    case 2
    show ?thesis
      unfolding switchKey_def 2 if_not_P [OF c] if_P [OF assms(2)]
      by (simp del: viewport_Update.simps)
  next
    case 3
    show ?thesis
      unfolding switchKey_def 3 if_not_P [OF c] if_P [OF assms(2)]
      by (simp del: viewport_Update.simps)
  next
    case 4
    show ?thesis
      unfolding switchKey_def 4 if_not_P [OF c] if_P [OF assms(2)]
      by (simp del: viewport_Update.simps)
  qed
qed

lemma switchKey_enter:
  assumes "0 \<le> selectedBlogEntry m"
  shows "switchKey X m ''enter'' runes =
    Inr (if currentPage m = BlogPage \<and> \<not> viewingBlogEntry m
         then reloaded X (m\<lparr>viewingBlogEntry := True\<rparr>) else m, None)"
  using assms unfolding switchKey_def by (simp add: updateViewportContent_reloaded)

lemma switchKey_backspace:
  assumes "0 \<le> selectedBlogEntry m"
  shows "switchKey X m ''backspace'' runes =
    Inr (if viewingBlogEntry m
         then reloaded X (m\<lparr>viewingBlogEntry := False\<rparr>) else m, None)"
  using assms unfolding switchKey_def by (simp add: updateViewportContent_reloaded)

lemma switchKey_other:
  assumes "key \<noteq> ''ctrl+u''" "key \<noteq> ''ctrl+d''" "key \<noteq> ''up''" "key \<noteq> ''k''"
        "key \<noteq> ''down''" "key \<noteq> ''j''" "key \<noteq> ''enter''" "key \<noteq> ''backspace''"
  shows "switchKey X m key runes =
    Inr (m\<lparr>viewport := viewport_Update (viewport m) (KeyMsg key runes)\<rparr>, None)"
  using assms unfolding switchKey_def by (simp del: viewport_Update.simps)

lemma switchPage_left:
  assumes "key = ''left'' \<or> key = ''h''" "0 \<le> selectedBlogEntry m"
  shows "switchPage X m key =
    Inr (if \<not> viewingBlogEntry m \<and> 0 < currentPage m
         then reloaded X (m\<lparr>currentPage := currentPage m - 1\<rparr>) else m)"
  using assms by (simp add: switchPage_def updateViewportContent_reloaded)

lemma switchPage_right:
  assumes "key = ''right'' \<or> key = ''l''" "0 \<le> selectedBlogEntry m"
  shows "switchPage X m key =
    Inr (if \<not> viewingBlogEntry m \<and> currentPage m < int (length (pages m)) - 1
         then reloaded X (m\<lparr>currentPage := currentPage m + 1\<rparr>) else m)"
proof -
  have k: "key \<noteq> ''left''" "key \<noteq> ''h''" using assms(1) by auto
  show ?thesis
    using k assms by (simp add: switchPage_def updateViewportContent_reloaded)
qed

lemma switchPage_other:
  assumes "key \<noteq> ''left''" "key \<noteq> ''h''" "key \<noteq> ''right''" "key \<noteq> ''l''"
  shows "switchPage X m key = Inr m"
  using assms by (simp add: switchPage_def)

lemma Update_plain_key:
  assumes "key \<noteq> ''ctrl+c''" "key \<noteq> ''q''" "key \<noteq> ''g''" "shiftedRune runes \<noteq> 71"
    "switchPage X m key = Inr m1"
  shows "Update X m (KeyMsg key runes) = switchKey X (m1\<lparr>lastKey := []\<rparr>) key runes"
  using assms by (simp add: Update_def)

lemma Update_chord_key:
  assumes "shiftedRune runes \<noteq> 71"
  shows "Update X m (KeyMsg ''g'' runes) = chordKey X m"
  using assms by (simp add: Update_def switchPage_def)

lemma Update_jump_key:
  assumes "key \<noteq> ''ctrl+c''" "key \<noteq> ''q''" "shiftedRune runes = 71"
    "switchPage X m key = Inr m1"
  shows "Update X m (KeyMsg key runes) = jumpBottom X m1"
  using assms by (simp add: Update_def)

lemma Update_quit_key:
  assumes "key = ''ctrl+c'' \<or> key = ''q''"
  shows "Update X m (KeyMsg key runes) = Inr (m, Some Quit)"
  using assms by (simp add: Update_def)

declare viewport_Update.simps [simp del]

lemma wf_lastKey [simp]: "wf (m\<lparr>lastKey := k\<rparr>) = wf m"
  by (simp add: wf_def)

lemma wf_viewport: "wf m \<Longrightarrow> 0 \<le> YOffset vp \<Longrightarrow> wf (m\<lparr>viewport := vp\<rparr>)"
  by (simp add: wf_def)

lemma wf_viewing [simp]: "wf (m\<lparr>viewingBlogEntry := b\<rparr>) = wf m"
  by (simp add: wf_def)

lemma wf_sel: "wf m \<Longrightarrow> 0 \<le> i \<Longrightarrow> i < int (length (blogEntries m)) \<Longrightarrow>
  wf (m\<lparr>selectedBlogEntry := i\<rparr>)"
  by (simp add: wf_def)

lemma wf_page: "wf m \<Longrightarrow> 0 \<le> p \<Longrightarrow> p \<le> 4 \<Longrightarrow> wf (m\<lparr>currentPage := p\<rparr>)"
  by (simp add: wf_def)

lemma wf_sel_nonneg: "wf m \<Longrightarrow> 0 \<le> selectedBlogEntry m"
  by (simp add: wf_def)

lemma wf_pages_length: "wf m \<Longrightarrow> int (length (pages m)) - 1 = 4"
  by (simp add: wf_def)

lemma sameSession_refl [simp]: "sameSession m m"
  by (simp add: sameSession_def)

lemma sameSession_trans: "sameSession a b \<Longrightarrow> sameSession b c \<Longrightarrow> sameSession a c"
  by (simp add: sameSession_def)

lemma sameSession_upd [simp]:
  "sameSession m (reloaded X m')  = sameSession m m'"
  "sameSession m (m'\<lparr>lastKey := k\<rparr>) = sameSession m m'"
  "sameSession m (m'\<lparr>viewport := vp\<rparr>) = sameSession m m'"
  "sameSession m (m'\<lparr>viewingBlogEntry := b\<rparr>) = sameSession m m'"
  "sameSession m (m'\<lparr>selectedBlogEntry := i\<rparr>) = sameSession m m'"
  "sameSession m (m'\<lparr>currentPage := p\<rparr>) = sameSession m m'"
  by (simp_all add: sameSession_def)

lemma switchPage_wf:
  assumes "wf m"
  shows "\<exists>m1. switchPage X m key = Inr m1 \<and> wf m1 \<and> sameSession m m1"
proof -
  have s: "0 \<le> selectedBlogEntry m" and y: "0 \<le> YOffset (viewport m)"
    using assms by (simp_all add: wf_def)
  consider (l) "key = ''left'' \<or> key = ''h''" | (r) "key = ''right'' \<or> key = ''l''"
    | (o) "key \<noteq> ''left''" "key \<noteq> ''h''" "key \<noteq> ''right''" "key \<noteq> ''l''"
    by blast
  then show ?thesis
  proof cases
    case l
    have "wf (m\<lparr>currentPage := currentPage m - 1\<rparr>)" if "0 < currentPage m"
      using assms that by (simp add: wf_def)
    then show ?thesis
      using assms y by (simp add: switchPage_left [OF l s] wf_reloaded_iff)
  next
    case r
    have "wf (m\<lparr>currentPage := currentPage m + 1\<rparr>)" if "currentPage m < int (length (pages m)) - 1"
      using assms that by (simp add: wf_def)
    then show ?thesis
      using assms y by (simp add: switchPage_right [OF r s] wf_reloaded_iff)
  next
    case o
    then show ?thesis using assms by (simp add: switchPage_other)
  qed
qed

lemma jumpBottom_wf:
  assumes "wf m"
  shows "\<exists>m'. jumpBottom X m = Inr (m', None) \<and> wf m' \<and> sameSession m m' \<and> lastKey m' = lastKey m"
proof -
  have n: "0 \<le> int (length (blogEntries m)) - 1" using assms by (simp add: wf_def)
  let ?m1 = "if currentPage m = BlogPage \<and> \<not> viewingBlogEntry m
                then m\<lparr>selectedBlogEntry := int (length (blogEntries m)) - 1\<rparr> else m"
  let ?m2 = "?m1\<lparr>viewport := GotoBottom (viewport ?m1)\<rparr>"
  have w2: "0 \<le> selectedBlogEntry ?m2" using assms n by (simp add: wf_def)
  obtain s where s: "getPageContent X ?m2 = Inr s" using getPageContent_ok [OF w2] by blast
  have "jumpBottom X m = Inr (?m2\<lparr>viewport := SetContent (viewport ?m2) s\<rparr>, None)"
    using s unfolding jumpBottom_def Let_def by simp
  moreover have "wf (?m2\<lparr>viewport := SetContent (viewport ?m2) s\<rparr>)"
    using assms n by (simp add: wf_def YOffset_SetContent YOffset_GotoBottom)
  ultimately show ?thesis by simp
qed

lemma chordKey_pending:
  assumes "lastKey m = ''g''" "0 \<le> selectedBlogEntry m"
  shows "chordKey X m =
    Inr ((reloaded X (if currentPage m = BlogPage \<and> \<not> viewingBlogEntry m
                      then m\<lparr>viewport := GotoTop (viewport m), selectedBlogEntry := 0\<rparr>
                      else m\<lparr>viewport := GotoTop (viewport m)\<rparr>))\<lparr>lastKey := []\<rparr>, None)"
  using assms by (simp add: chordKey_def Let_def updateViewportContent_reloaded)

lemma chordKey_first:
  assumes "lastKey m \<noteq> ''g''"
  shows "chordKey X m = Inr (m\<lparr>lastKey := ''g''\<rparr>, None)"
  using assms by (simp add: chordKey_def)

lemma chordKey_wf:
  assumes "wf m"
  shows "\<exists>m'. chordKey X m = Inr (m', None) \<and> wf m' \<and> sameSession m m'"
proof (cases "lastKey m = ''g''")
  case False
  then show ?thesis using assms by (simp add: chordKey_first)
next
  case True
  have s: "0 \<le> selectedBlogEntry m" and y: "0 \<le> YOffset (viewport m)"
    and n: "0 < int (length (blogEntries m))"
    using assms by (simp_all add: wf_def)
  have y': "0 \<le> YOffset (GotoTop (viewport m))" using y by (simp add: YOffset_GotoTop)
  show ?thesis
    using assms y' n
    by (simp add: chordKey_pending [OF True s] wf_reloaded_iff wf_viewport wf_sel)
qed

lemma switchKey_wf:
  assumes "wf m"
  shows "\<exists>m'. switchKey X m key runes = Inr (m', None) \<and> wf m' \<and> sameSession m m' \<and>
    lastKey m' = lastKey m"
proof -
  have y: "0 \<le> YOffset (viewport m)" and s: "0 \<le> selectedBlogEntry m"
    and b: "selectedBlogEntry m < int (length (blogEntries m))"
    using assms by (simp_all add: wf_def)
  have v: "wf (m\<lparr>viewport := viewport_Update (viewport m) msg\<rparr>)" for msg
    using assms y by (simp add: wf_viewport YOffset_viewport_Update)
  consider (ku) "key = ''ctrl+u''" | (kd) "key = ''ctrl+d''"
    | (up) "key = ''up'' \<or> key = ''k''" | (down) "key = ''down'' \<or> key = ''j''"
    | (enter) "key = ''enter''" | (bs) "key = ''backspace''"
    | (other) "key \<noteq> ''ctrl+u''" "key \<noteq> ''ctrl+d''" "key \<noteq> ''up''" "key \<noteq> ''k''"
        "key \<noteq> ''down''" "key \<noteq> ''j''" "key \<noteq> ''enter''" "key \<noteq> ''backspace''"
    by blast
  then show ?thesis
  proof cases
    case ku
    then show ?thesis using assms y by (simp add: switchKey_def wf_viewport YOffset_LineUp)
  next
    case kd
    then show ?thesis using assms y by (simp add: switchKey_def wf_viewport YOffset_LineDown)
  next
    case up
    show ?thesis
    proof (cases "currentPage m = BlogPage \<and> \<not> viewingBlogEntry m")
      case True
      then show ?thesis
        using assms y s b switchKey_up_index [OF up _ _ s, of X runes]
        by (simp add: wf_reloaded_iff wf_sel)
    next
      case False
      then have "viewingBlogEntry m \<or> currentPage m \<noteq> BlogPage" by blast
      then have "switchKey X m key runes =
          Inr (m\<lparr>viewport := viewport_Update (viewport m) (KeyMsg key runes)\<rparr>, None)"
        using up by (intro switchKey_scroll) blast+
      then show ?thesis
        using v [of "KeyMsg key runes"] by simp
    qed
  next
    case down
    show ?thesis
    proof (cases "currentPage m = BlogPage \<and> \<not> viewingBlogEntry m")
      case True
      then show ?thesis
        using assms y s b switchKey_down_index [OF down _ _ s, of X runes]
        by (simp add: wf_reloaded_iff wf_sel)
    next
      case False
      then have "viewingBlogEntry m \<or> currentPage m \<noteq> BlogPage" by blast
      then have "switchKey X m key runes =
          Inr (m\<lparr>viewport := viewport_Update (viewport m) (KeyMsg key runes)\<rparr>, None)"
        using down by (intro switchKey_scroll) blast+
      then show ?thesis
        using v [of "KeyMsg key runes"] by simp
    qed
  next
    case enter
    then show ?thesis using assms y by (simp add: switchKey_enter [OF s] wf_reloaded_iff)
  next
    case bs
    then show ?thesis using assms y by (simp add: switchKey_backspace [OF s] wf_reloaded_iff)
  next
    case other
    then show ?thesis using v [of "KeyMsg key runes"] by (simp add: switchKey_other)
  qed
qed

lemma Update_key_wf:
  assumes "wf m"
  shows "\<exists>m' cmd. Update X m (KeyMsg key runes) = Inr (m', cmd) \<and> wf m' \<and> sameSession m m'"
proof -
  obtain m1 where m1: "switchPage X m key = Inr m1" "wf m1" "sameSession m m1"
    using switchPage_wf [OF assms] by blast
  show ?thesis
  proof (cases "key = ''ctrl+c'' \<or> key = ''q''")
    case True
    then show ?thesis using assms by (simp add: Update_quit_key)
  next
    case nq: False
    show ?thesis
    proof (cases "shiftedRune runes = 71")
      case True
      obtain m' where "jumpBottom X m1 = Inr (m', None)" "wf m'" "sameSession m1 m'"
        using jumpBottom_wf [OF m1(2)] by blast
      then have "Update X m (KeyMsg key runes) = Inr (m', None)" "wf m'" "sameSession m m'"
        using nq True m1 Update_jump_key [of key runes X m m1]
        by (simp_all add: sameSession_def)
      then show ?thesis by blast
    next
      case ns: False
      show ?thesis
      proof (cases "key = ''g''")
        case True
        obtain m' where "chordKey X m = Inr (m', None)" "wf m'" "sameSession m m'"
          using chordKey_wf [OF assms] by blast
        then show ?thesis using True ns by (simp add: Update_chord_key)
      next
        case False
        have "wf (m1\<lparr>lastKey := []\<rparr>)" using m1(2) by simp
        then obtain m' where "switchKey X (m1\<lparr>lastKey := []\<rparr>) key runes = Inr (m', None)"
          "wf m'" "sameSession (m1\<lparr>lastKey := []\<rparr>) m'"
          using switchKey_wf [of "m1\<lparr>lastKey := []\<rparr>" X key runes] by blast
        moreover have "sameSession m (m1\<lparr>lastKey := []\<rparr>)" using m1(3) by simp
        ultimately have "Update X m (KeyMsg key runes) = Inr (m', None)" "wf m'" "sameSession m m'"
          using nq ns False m1(1) Update_plain_key [of key runes X m m1]
          by (simp_all add: sameSession_def)
        then show ?thesis by blast
      qed
    qed
  qed
qed

lemma viewport_Update_nonkey [simp]:
  "viewport_Update vp (WindowSizeMsg w h) = vp" "viewport_Update vp OtherMsg = vp"
  by (simp_all add: viewport_Update.simps)

lemma Update_WindowSizeMsg:
  assumes "0 \<le> selectedBlogEntry m"
  shows "Update X m (WindowSizeMsg w h) =
    Inr (reloaded X
          ((if \<not> ready m then m\<lparr>viewport := viewport_New w (h - 4), ready := True\<rparr>
            else m\<lparr>viewport := (viewport m)\<lparr>Width := w, Height := h - 4\<rparr>\<rparr>)
           \<lparr>width := w, height := h\<rparr>), None)"
  using assms by (simp add: Update_def Let_def updateViewportContent_reloaded)

lemma Update_WindowSizeMsg_wf:
  assumes "wf m"
  shows "\<exists>m'. Update X m (WindowSizeMsg w h) = Inr (m', None) \<and> wf m' \<and>
    blogEntries m' = blogEntries m \<and> ready m'"
proof -
  have s: "0 \<le> selectedBlogEntry m" and y: "0 \<le> YOffset (viewport m)"
    using assms by (simp_all add: wf_def)
  let ?m2 = "(if \<not> ready m then m\<lparr>viewport := viewport_New w (h - 4), ready := True\<rparr>
            else m\<lparr>viewport := (viewport m)\<lparr>Width := w, Height := h - 4\<rparr>\<rparr>)
           \<lparr>width := w, height := h\<rparr>"
  have "wf ?m2" using assms by (simp add: wf_def viewport_New_def)
  then have "wf (reloaded X ?m2)" by (rule wf_reloaded)
  moreover have "ready (reloaded X ?m2)" by simp
  moreover have "blogEntries (reloaded X ?m2) = blogEntries m" by simp
  ultimately show ?thesis unfolding Update_WindowSizeMsg [OF s] by blast
qed

lemma Update_OtherMsg: "Update X m OtherMsg = Inr (m, None)"
  by (simp add: Update_def)

lemma Update_wf:
  assumes "wf m"
  shows "\<exists>m' cmd. Update X m msg = Inr (m', cmd) \<and> wf m' \<and> blogEntries m' = blogEntries m"
proof (cases msg)
  case (WindowSizeMsg w h)
  then show ?thesis using Update_WindowSizeMsg_wf [OF assms, of X w h] by blast
next
  case (KeyMsg key runes)
  then show ?thesis using Update_key_wf [OF assms, of X key runes]
    by (auto simp: sameSession_def)
next
  case OtherMsg
  then show ?thesis using assms by (simp add: Update_OtherMsg)
qed

lemma runLoop_wf:
  "wf m \<Longrightarrow> \<exists>m'. runLoop X m msgs = Inr m' \<and> wf m' \<and> blogEntries m' = blogEntries m"
proof (induction msgs arbitrary: m)
  case Nil
  then show ?case by simp
next
  case (Cons msg msgs)
  obtain m1 cmd where u: "Update X m msg = Inr (m1, cmd)" "wf m1" "blogEntries m1 = blogEntries m"
    using Update_wf [OF Cons.prems] by blast
  show ?case
  proof (cases "cmd = Some Quit")
    case True
    then show ?thesis using u by simp
  next
    case False
    then show ?thesis using u Cons.IH [OF u(2)] by simp
  qed
qed

lemma getFallbackBlogPosts_length: "length getFallbackBlogPosts = 3"
  by (simp add: getFallbackBlogPosts_def)

lemma GetBlogPosts_nonempty: "GetBlogPosts X W \<noteq> []"
proof -
  have f: "getFallbackBlogPosts \<noteq> []"
    using getFallbackBlogPosts_length by auto
  show ?thesis
    using f unfolding GetBlogPosts_def Let_def
    by (simp split: option.split)
qed

lemma wf_NewModel: "wf (NewModel X W w h)"
  using GetBlogPosts_nonempty [of X W]
  by (simp add: wf_def NewModel_def Let_def viewport_New_def HomePage_def)

lemma reachable_wf: "reachable X W m \<Longrightarrow> wf m"
proof (induction rule: reachable.induct)
  case (start w h)
  show ?case by (rule wf_NewModel)
next
  case (step m msg m' cmd)
  then show ?case using Update_wf [of m X msg] by auto
qed

lemma reachable_runLoop:
  "reachable X W m \<Longrightarrow> runLoop X m msgs = Inr m' \<Longrightarrow> reachable X W m'"
proof (induction msgs arbitrary: m)
  case Nil
  then show ?case by simp
next
  case (Cons msg msgs)
  obtain m1 cmd where u: "Update X m msg = Inr (m1, cmd)"
    using Update_wf [OF reachable_wf [OF Cons.prems(1)]] by blast
  have r: "reachable X W m1" using Cons.prems(1) u by (rule reachable.step)
  show ?case
  proof (cases "cmd = Some Quit")
    case True
    then show ?thesis using u r Cons.prems(2) by simp
  next
    case False
    then show ?thesis using u r Cons.prems(2) Cons.IH by simp
  qed
qed

lemma collectPosts_filter:
  "collectPosts X W d files acc =
     acc @ filter Published
       (List.map_filter (\<lambda>file. readMarkdownFile W (filepath_Join X [d, FileInfo.Name file]))
          (filter (\<lambda>file. \<not> IsDir file \<and> suffix ''.md'' (FileInfo.Name file)) files))"
  by (induction files arbitrary: acc) (simp_all add: map_filter_simps split: option.split)

lemma sort_empty: "sort_Slice_sorts X \<Longrightarrow>
  sort_Slice X (\<lambda>pi pj. After (BlogPost.Date pi) (BlogPost.Date pj)) [] = []"
  unfolding sort_Slice_sorts_def by (metis mset_zero_iff)

lemma sort_nonempty: "sort_Slice_sorts X \<Longrightarrow> ps \<noteq> [] \<Longrightarrow>
  sort_Slice X (\<lambda>pi pj. After (BlogPost.Date pi) (BlogPost.Date pj)) ps \<noteq> []"
  unfolding sort_Slice_sorts_def by (metis mset_zero_iff)

lemma GetBlogPosts_published:
  assumes "sort_Slice_sorts X"
  shows "GetBlogPosts X W =
    (if publishedPosts X W = [] then getFallbackBlogPosts
     else map (toEntry X)
       (sort_Slice X (\<lambda>pi pj. After (BlogPost.Date pi) (BlogPost.Date pj)) (publishedPosts X W)))"
  using sort_empty [OF assms] sort_nonempty [OF assms]
  unfolding GetBlogPosts_def publishedPosts_def Let_def collectPosts_filter
  by (simp split: option.split)

lemma mset_sink: "mset (sink lt x rs) = add_mset x (mset rs)"
  by (induction rs) simp_all

lemma set_sink: "set (sink lt x rs) = insert x (set rs)"
  by (induction rs) auto

lemma mset_foldl_sink: "mset (foldl (\<lambda>rs x. sink lt x rs) acc xs) = mset acc + mset xs"
  by (induction xs arbitrary: acc) (simp_all add: mset_sink)

lemma mset_insertionSort: "mset (insertionSort lt xs) = mset xs"
  by (simp add: insertionSort_def mset_foldl_sink)

lemma sorted_sink:
  fixes f :: "'a \<Rightarrow> int"
  shows "sorted_wrt (\<lambda>a b. f a \<le> f b) rs \<Longrightarrow>
    sorted_wrt (\<lambda>a b. f a \<le> f b) (sink (\<lambda>p q. f q < f p) x rs)"
  by (induction rs) (auto simp: set_sink)

lemma sorted_foldl_sink:
  fixes f :: "'a \<Rightarrow> int"
  shows "sorted_wrt (\<lambda>a b. f a \<le> f b) acc \<Longrightarrow>
    sorted_wrt (\<lambda>a b. f a \<le> f b) (foldl (\<lambda>rs x. sink (\<lambda>p q. f q < f p) x rs) acc xs)"
  by (induction xs arbitrary: acc) (simp_all add: sorted_sink)

lemma sorted_insertionSort:
  fixes f :: "'a \<Rightarrow> int"
  shows "sorted_wrt (\<lambda>p q. f q \<le> f p) (insertionSort (\<lambda>p q. f q < f p) xs)"
  using sorted_foldl_sink [of f "[]" xs]
  by (simp add: insertionSort_def sorted_wrt_rev)

lemma sort_Slice_sorts_X0: "sort_Slice_sorts X0"
  by (simp add: sort_Slice_sorts_def X0_def mset_insertionSort newestFirst_def After_def
        sorted_insertionSort)

lemma GetBlogPosts_X0_W0:
  "GetBlogPosts X0 W0 = [toEntry X0 postA, toEntry X0 postB]"
  by (simp add: GetBlogPosts_def X0_def W0_def Let_def insertionSort_def After_def
        postA_def postB_def postDraft_def suffix_def)


lemma publishedPosts_X0_W1: "publishedPosts X0 W1 = []"
  by (simp add: publishedPosts_def X0_def W1_def Let_def
        postDraft_def suffix_def)

lemma displayWidth_floor: "40 \<le>s displayWidth w"
  by (simp add: displayWidth_def Let_def word_sle_eq word_sless_alt)

lemma displayWidth_wrap: "36 \<le>s displayWidth w - 4"
proof -
  have a: "40 \<le> sint (displayWidth w)"
    using displayWidth_floor [of w] by (simp add: word_sle_eq)
  have b: "sint (displayWidth w) < 2 ^ 63"
    using sint_lt [of "displayWidth w"] by simp
  have "sint (displayWidth w - 4) = sint (displayWidth w) - 4"
    using a b by (simp add: sint_word_ariths signed_take_bit_int_eq_self)
  then show ?thesis using a by (simp add: word_sle_eq)
qed

lemma displayWidth_exact:
  assumes "- (2 ^ 63) + 8 \<le> sint w"
  shows "sint (displayWidth w) = max 40 (sint w - 8)"
proof -
  have b: "sint w < 2 ^ 63"
    using sint_lt [of w] by simp
  have "sint (w - 8) = sint w - 8"
    using assms b by (simp add: sint_word_ariths signed_take_bit_int_eq_self)
  then show ?thesis
    by (simp add: displayWidth_def Let_def word_sless_alt)
qed

lemma blogEntries_NewModel: "blogEntries (NewModel X W w h) = GetBlogPosts X W"
  by (simp add: NewModel_def Let_def)

lemma isKey_cases:
  assumes "isKey keys msg"
  obtains key runes where "msg = KeyMsg key runes" "key \<in> set keys" "shiftedRune runes \<noteq> 71"
  using assms by (cases msg) (simp_all add: isKey_def)

lemma viewport_Update_unbound:
  assumes "key = ''left'' \<or> key = ''h'' \<or> key = ''right'' \<or> key = ''l'' \<or> key = ''enter''
    \<or> key = ''backspace'' \<or> key = ''g'' \<or> key = ''G''"
  shows "viewport_Update vp (KeyMsg key runes) = vp"
  using assms by (elim disjE) (simp_all add: viewport_Update.simps)

lemma Model_viewport_same [simp]: "m\<lparr>viewport := viewport m\<rparr> = m"
  by simp

lemma Update_moveLeft:
  assumes "moveLeft msg" "0 \<le> selectedBlogEntry m"
  shows "Update X m msg =
    Inr ((if \<not> viewingBlogEntry m \<and> 0 < currentPage m
          then reloaded X (m\<lparr>currentPage := currentPage m - 1\<rparr>) else m)\<lparr>lastKey := []\<rparr>, None)"
proof -
  obtain key runes where k: "msg = KeyMsg key runes" "key = ''left'' \<or> key = ''h''"
    "shiftedRune runes \<noteq> 71"
    using assms(1) unfolding moveLeft_def by (elim isKey_cases) auto
  have n: "key \<noteq> ''ctrl+c''" "key \<noteq> ''q''" "key \<noteq> ''g''" "key \<noteq> ''ctrl+u''" "key \<noteq> ''ctrl+d''"
    "key \<noteq> ''up''" "key \<noteq> ''k''" "key \<noteq> ''down''" "key \<noteq> ''j''" "key \<noteq> ''enter''"
    "key \<noteq> ''backspace''"
    using k(2) by auto
  have v: "viewport_Update vp (KeyMsg key runes) = vp" for vp
    using k(2) by (elim disjE) (simp_all add: viewport_Update.simps)
  show ?thesis
    unfolding k(1)
    by (simp add: Update_plain_key [OF n(1,2,3) k(3) switchPage_left [OF k(2) assms(2)]]
          switchKey_other [OF n(4-11)] v)
qed

lemma Update_moveRight:
  assumes "moveRight msg" "0 \<le> selectedBlogEntry m"
  shows "Update X m msg =
    Inr ((if \<not> viewingBlogEntry m \<and> currentPage m < int (length (pages m)) - 1
          then reloaded X (m\<lparr>currentPage := currentPage m + 1\<rparr>) else m)\<lparr>lastKey := []\<rparr>, None)"
proof -
  obtain key runes where k: "msg = KeyMsg key runes" "key = ''right'' \<or> key = ''l''"
    "shiftedRune runes \<noteq> 71"
    using assms(1) unfolding moveRight_def by (elim isKey_cases) auto
  have n: "key \<noteq> ''ctrl+c''" "key \<noteq> ''q''" "key \<noteq> ''g''" "key \<noteq> ''ctrl+u''" "key \<noteq> ''ctrl+d''"
    "key \<noteq> ''up''" "key \<noteq> ''k''" "key \<noteq> ''down''" "key \<noteq> ''j''" "key \<noteq> ''enter''"
    "key \<noteq> ''backspace''"
    using k(2) by auto
  have v: "viewport_Update vp (KeyMsg key runes) = vp" for vp
    using k(2) by (elim disjE) (simp_all add: viewport_Update.simps)
  show ?thesis
    unfolding k(1)
    by (simp add: Update_plain_key [OF n(1,2,3) k(3) switchPage_right [OF k(2) assms(2)]]
          switchKey_other [OF n(4-11)] v)
qed


lemma Update_moveDown_index:
  assumes "moveDown msg" "currentPage m = BlogPage" "\<not> viewingBlogEntry m" "0 \<le> selectedBlogEntry m"
  shows "Update X m msg =
    Inr (if selectedBlogEntry m < int (length (blogEntries m)) - 1
         then reloaded X (m\<lparr>selectedBlogEntry := selectedBlogEntry m + 1, lastKey := []\<rparr>)
         else m\<lparr>lastKey := []\<rparr>, None)"
proof -
  obtain key runes where k: "msg = KeyMsg key runes" "key = ''down'' \<or> key = ''j''"
    "shiftedRune runes \<noteq> 71"
    using assms(1) unfolding moveDown_def by (elim isKey_cases) auto
  have n: "key \<noteq> ''ctrl+c''" "key \<noteq> ''q''" "key \<noteq> ''g''" "key \<noteq> ''left''" "key \<noteq> ''h''"
    "key \<noteq> ''right''" "key \<noteq> ''l''"
    using k(2) by auto
  have "Update X m msg = switchKey X (m\<lparr>lastKey := []\<rparr>) key runes"
    unfolding k(1) by (rule Update_plain_key [OF n(1,2,3) k(3) switchPage_other [OF n(4-7)]])
  also have "\<dots> = Inr (if selectedBlogEntry (m\<lparr>lastKey := []\<rparr>)
              < int (length (blogEntries (m\<lparr>lastKey := []\<rparr>))) - 1
         then reloaded X ((m\<lparr>lastKey := []\<rparr>)
                \<lparr>selectedBlogEntry := selectedBlogEntry (m\<lparr>lastKey := []\<rparr>) + 1\<rparr>)
         else m\<lparr>lastKey := []\<rparr>, None)"
    using assms(2-4) by (intro switchKey_down_index [OF k(2)]) simp_all
  finally show ?thesis by (simp add: reloaded_def getPageContent_def getBlogEntryContent_def
    getHomeContent_def getProjectsContent_def getBlogContent_def getAboutContent_def
    getContactContent_def)
qed



lemma chordG_cases:
  assumes "chordG msg"
  obtains runes where "msg = KeyMsg ''g'' runes" "shiftedRune runes \<noteq> 71"
  using assms unfolding chordG_def by (elim isKey_cases) auto

lemma Update_chordG_first:
  assumes "chordG msg" "lastKey m \<noteq> ''g''"
  shows "Update X m msg = Inr (m\<lparr>lastKey := ''g''\<rparr>, None)"
  using assms(1)
  by (elim chordG_cases) (simp add: Update_chord_key chordKey_first [OF assms(2)])

lemma Update_chordG_pending:
  assumes "chordG msg" "lastKey m = ''g''" "0 \<le> selectedBlogEntry m"
  shows "Update X m msg = Inr (jumpedTop X m, None)"
  using assms(1)
  by (elim chordG_cases)
    (simp add: Update_chord_key chordKey_pending [OF assms(2,3)] jumpedTop_def)

lemma Update_gotoBottomKey: "Update X m gotoBottomKey = jumpBottom X m"
  unfolding gotoBottomKey_def
  by (rule Update_jump_key [OF _ _ _ switchPage_other]) (simp_all add: shiftedRune_def)

lemma getPageContent_cong:
  assumes "currentPage a = currentPage b" "viewingBlogEntry a = viewingBlogEntry b"
    "blogEntries a = blogEntries b" "selectedBlogEntry a = selectedBlogEntry b"
    "width a = width b"
  shows "getPageContent X a = getPageContent X b"
  using assms
  by (simp add: getPageContent_def getBlogEntryContent_def getHomeContent_def
    getProjectsContent_def getBlogContent_def getAboutContent_def getContactContent_def)

lemma jumpedTop_fields [simp]:
  "currentPage (jumpedTop X m) = currentPage m"
  "viewingBlogEntry (jumpedTop X m) = viewingBlogEntry m"
  "blogEntries (jumpedTop X m) = blogEntries m"
  "pages (jumpedTop X m) = pages m"
  "lastKey (jumpedTop X m) = []"
  "ready (jumpedTop X m) = ready m"
  "width (jumpedTop X m) = width m"
  "height (jumpedTop X m) = height m"
  by (simp_all add: jumpedTop_def)

lemma selectedBlogEntry_jumpedTop:
  "selectedBlogEntry (jumpedTop X m) =
     (if currentPage m = BlogPage \<and> \<not> viewingBlogEntry m then 0 else selectedBlogEntry m)"
  by (simp add: jumpedTop_def)

lemma YOffset_jumpedTop:
  "0 \<le> YOffset (viewport m) \<Longrightarrow> YOffset (viewport (jumpedTop X m)) = 0"
  by (simp add: jumpedTop_def reloaded_def YOffset_GotoTop YOffset_SetContent)

lemma viewport_jumpedTop:
  "viewport (jumpedTop X m) =
     GotoTop (SetContent (GotoTop (viewport m))
       (projr (getPageContent X
          (if currentPage m = BlogPage \<and> \<not> viewingBlogEntry m
           then m\<lparr>selectedBlogEntry := 0\<rparr> else m))))"
proof -
  have "getPageContent X (m\<lparr>viewport := v, selectedBlogEntry := 0\<rparr>) =
      getPageContent X (m\<lparr>selectedBlogEntry := 0\<rparr>)" for v
    by (rule getPageContent_cong) simp_all
  moreover have "getPageContent X (m\<lparr>viewport := v\<rparr>) = getPageContent X m" for v
    by (rule getPageContent_cong) simp_all
  ultimately show ?thesis by (simp add: jumpedTop_def reloaded_def)
qed

lemma jumpedTop_again:
  "jumpedTop X ((jumpedTop X m)\<lparr>lastKey := k\<rparr>) = jumpedTop X m"
proof -
  define J where "J = jumpedTop X m"
  define a where "a = (if currentPage m = BlogPage \<and> \<not> viewingBlogEntry m
           then m\<lparr>selectedBlogEntry := 0\<rparr> else m)"
  define c where "c = projr (getPageContent X a)"
  have vJ: "viewport J = GotoTop (SetContent (GotoTop (viewport m)) c)"
    unfolding J_def c_def a_def by (rule viewport_jumpedTop)
  have sJ: "selectedBlogEntry J = selectedBlogEntry a"
    unfolding J_def a_def by (simp add: selectedBlogEntry_jumpedTop)
  have fJ: "currentPage J = currentPage a" "viewingBlogEntry J = viewingBlogEntry a"
    "blogEntries J = blogEntries a" "width J = width a" "lastKey J = []"
    unfolding J_def a_def by simp_all
  have idx: "(currentPage J = BlogPage \<and> \<not> viewingBlogEntry J) =
      (currentPage m = BlogPage \<and> \<not> viewingBlogEntry m)"
    unfolding J_def by simp
  have s0: "selectedBlogEntry J = 0" if "currentPage m = BlogPage \<and> \<not> viewingBlogEntry m"
    using that unfolding J_def by (simp add: selectedBlogEntry_jumpedTop)
  let ?b = "if currentPage (J\<lparr>lastKey := k\<rparr>) = BlogPage \<and> \<not> viewingBlogEntry (J\<lparr>lastKey := k\<rparr>)
           then (J\<lparr>lastKey := k\<rparr>)\<lparr>selectedBlogEntry := 0\<rparr> else J\<lparr>lastKey := k\<rparr>"
  have "getPageContent X ?b = getPageContent X a"
    by (rule getPageContent_cong) (use sJ fJ s0 idx in \<open>auto simp: a_def\<close>)
  then have "viewport (jumpedTop X (J\<lparr>lastKey := k\<rparr>)) =
      GotoTop (SetContent (GotoTop (viewport J)) c)"
    unfolding viewport_jumpedTop c_def by simp
  also have "\<dots> = viewport J"
    unfolding vJ by (simp add: GotoTop_idem reload_idem)
  finally have v: "viewport (jumpedTop X (J\<lparr>lastKey := k\<rparr>)) = viewport J" .
  have s: "selectedBlogEntry (jumpedTop X (J\<lparr>lastKey := k\<rparr>)) = selectedBlogEntry J"
    using s0 idx by (auto simp: selectedBlogEntry_jumpedTop)
  have m: "Model.more (jumpedTop X n) = Model.more n" for n :: Model
    by (simp add: jumpedTop_def reloaded_def)
  have "jumpedTop X (J\<lparr>lastKey := k\<rparr>) = J"
    by (rule Model.equality) (simp_all add: v s fJ m)
  then show ?thesis by (simp add: J_def)
qed

lemma runLoop_step:
  "Update X m msg = Inr (m', None) \<Longrightarrow> runLoop X m (msg # msgs) = runLoop X m' msgs"
  by simp

lemma session0_fields [simp]:
  "currentPage session0 = HomePage" "selectedBlogEntry session0 = 0"
  "\<not> viewingBlogEntry session0" "\<not> ready session0" "lastKey session0 = []"
  "pages session0 = [''Home'', ''Projects'', ''Blog'', ''About'', ''Contact'']"
  "blogEntries session0 = [toEntry X0 postA, toEntry X0 postB]"
  by (simp_all add: session0_def NewModel_def Let_def GetBlogPosts_X0_W0)

lemma reachable_session0: "reachable X0 W0 session0"
  unfolding session0_def by (rule reachable.start)

lemma reachable_sessionAfter: "reachable X0 W0 (sessionAfter msgs)"
proof -
  obtain m' where "runLoop X0 session0 msgs = Inr m'"
    using runLoop_wf [OF reachable_wf [OF reachable_session0]] by blast
  then show ?thesis
    using reachable_runLoop [OF reachable_session0] by (simp add: sessionAfter_def)
qed


lemma moves [simp]:
  "moveRight (KeyMsg ''right'' [])" "moveLeft (KeyMsg ''left'' [])"
  "moveUp (KeyMsg ''up'' [])" "moveDown (KeyMsg ''down'' [])"
  "moveUp (KeyMsg ''k'' [107])" "moveDown (KeyMsg ''j'' [106])"
  "chordG (KeyMsg ''g'' [103])"
  by (simp_all add: moveRight_def moveLeft_def moveUp_def moveDown_def chordG_def isKey_def
        shiftedRune_def)

lemma pages_simps [simp]: "HomePage = 0" "ProjectsPage = 1" "BlogPage = 2" "AboutPage = 3"
  "ContactPage = 4"
  by (simp_all add: HomePage_def ProjectsPage_def BlogPage_def AboutPage_def ContactPage_def)



lemma blogIndex_fields [simp]:
  "currentPage (sessionAfter [KeyMsg ''right'' [], KeyMsg ''right'' []]) = BlogPage"
  "\<not> viewingBlogEntry (sessionAfter [KeyMsg ''right'' [], KeyMsg ''right'' []])"
  "selectedBlogEntry (sessionAfter [KeyMsg ''right'' [], KeyMsg ''right'' []]) = 0"
  "blogEntries (sessionAfter [KeyMsg ''right'' [], KeyMsg ''right'' []]) =
     [toEntry X0 postA, toEntry X0 postB]"
  by (simp_all add: sessionAfter_def Update_moveRight)

lemma blogIndex_down_fields [simp]:
  "currentPage (sessionAfter [KeyMsg ''right'' [], KeyMsg ''right'' [], KeyMsg ''down'' []]) = BlogPage"
  "\<not> viewingBlogEntry (sessionAfter [KeyMsg ''right'' [], KeyMsg ''right'' [], KeyMsg ''down'' []])"
  "selectedBlogEntry (sessionAfter [KeyMsg ''right'' [], KeyMsg ''right'' [], KeyMsg ''down'' []]) = 1"
  "blogEntries (sessionAfter [KeyMsg ''right'' [], KeyMsg ''right'' [], KeyMsg ''down'' []]) =
     [toEntry X0 postA, toEntry X0 postB]"
  by (simp_all add: sessionAfter_def Update_moveRight Update_moveDown_index)

lemma contact_state_fields [simp]:
  "currentPage (sessionAfter [KeyMsg ''right'' [], KeyMsg ''right'' [], KeyMsg ''right'' [],
      KeyMsg ''right'' []]) = ContactPage"
  "currentPage (sessionAfter [KeyMsg ''right'' [], KeyMsg ''right'' [], KeyMsg ''right'' [],
      KeyMsg ''right'' [], KeyMsg ''right'' [], KeyMsg ''left'' []]) = AboutPage"
  by (simp_all add: sessionAfter_def Update_moveRight Update_moveLeft)

lemma GetBlogPosts_X0_W1: "GetBlogPosts X0 W1 = getFallbackBlogPosts"
  by (simp add: GetBlogPosts_published [OF sort_Slice_sorts_X0] publishedPosts_X0_W1)


lemma fallbackSession_fields [simp]:
  "currentPage (fallbackSession [KeyMsg ''right'' [], KeyMsg ''right'' []]) = BlogPage"
  "\<not> viewingBlogEntry (fallbackSession [KeyMsg ''right'' [], KeyMsg ''right'' []])"
  "selectedBlogEntry (fallbackSession [KeyMsg ''right'' [], KeyMsg ''right'' []]) = 0"
  "blogEntries (fallbackSession [KeyMsg ''right'' [], KeyMsg ''right'' []]) = getFallbackBlogPosts"
  by (simp_all add: fallbackSession_def Update_moveRight NewModel_def Let_def GetBlogPosts_X0_W1)

lemma other_keys_cancel_chord:
  assumes "wf m" "key \<noteq> ''ctrl+c''" "key \<noteq> ''q''" "key \<noteq> ''g''" "shiftedRune runes \<noteq> 71"
  shows "\<exists>m'. Update X m (KeyMsg key runes) = Inr (m', None) \<and> lastKey m' = []"
proof -
  obtain m1 where m1: "switchPage X m key = Inr m1" "wf m1"
    using switchPage_wf [OF assms(1)] by blast
  have "wf (m1\<lparr>lastKey := []\<rparr>)" using m1(2) by simp
  then obtain m' where "switchKey X (m1\<lparr>lastKey := []\<rparr>) key runes = Inr (m', None)"
    "lastKey m' = lastKey (m1\<lparr>lastKey := []\<rparr>)"
    using switchKey_wf [of "m1\<lparr>lastKey := []\<rparr>" X key runes] by blast
  then show ?thesis
    using Update_plain_key [OF assms(2-5) m1(1)] by simp
qed





lemma mset_sinkPastEquals: "mset (sinkPastEquals lt x rs) = add_mset x (mset rs)"
  by (induction rs) simp_all

lemma set_sinkPastEquals: "set (sinkPastEquals lt x rs) = insert x (set rs)"
  by (induction rs) auto

lemma sorted_sinkPastEquals:
  fixes f :: "'a \<Rightarrow> int"
  shows "sorted_wrt (\<lambda>a b. f a \<le> f b) rs \<Longrightarrow>
    sorted_wrt (\<lambda>a b. f a \<le> f b) (sinkPastEquals (\<lambda>p q. f q < f p) x rs)"
  by (induction rs) (auto simp: set_sinkPastEquals)

lemma mset_foldl_sinkPastEquals:
  "mset (foldl (\<lambda>rs x. sinkPastEquals lt x rs) acc xs) = mset acc + mset xs"
  by (induction xs arbitrary: acc) (simp_all add: mset_sinkPastEquals)

lemma sorted_foldl_sinkPastEquals:
  fixes f :: "'a \<Rightarrow> int"
  shows "sorted_wrt (\<lambda>a b. f a \<le> f b) acc \<Longrightarrow>
    sorted_wrt (\<lambda>a b. f a \<le> f b)
      (foldl (\<lambda>rs x. sinkPastEquals (\<lambda>p q. f q < f p) x rs) acc xs)"
  by (induction xs arbitrary: acc) (simp_all add: sorted_sinkPastEquals)

lemma sorted_tieReversingSort:
  fixes f :: "'a \<Rightarrow> int"
  shows "sorted_wrt (\<lambda>p q. f q \<le> f p) (tieReversingSort (\<lambda>p q. f q < f p) xs)"
  using sorted_foldl_sinkPastEquals [of f "[]" xs]
  by (simp add: tieReversingSort_def sorted_wrt_rev)

lemma mset_tieReversingSort: "mset (tieReversingSort lt xs) = mset xs"
  by (simp add: tieReversingSort_def mset_foldl_sinkPastEquals)

lemma publishedPosts_X0_W2: "publishedPosts X W2 = [postC, postD]" if "filepath_Join X = filepath_Join X0"
  using that
  by (simp add: publishedPosts_def X0_def W2_def Let_def postC_def postD_def suffix_def)

text \<open>
  The order of posts of equal date is not fixed by what \<open>sort.Slice\<close> promises: with the
  sort above in its place, which keeps the promise, two published posts of the same date
  are returned in the reverse of the directory order.
\<close>

lemma tie_order_not_promised:
  "sort_Slice_sorts (X0\<lparr>sort_Slice := tieReversingSort\<rparr>)
   \<and> publishedPosts (X0\<lparr>sort_Slice := tieReversingSort\<rparr>) W2 = [postC, postD]
   \<and> BlogPost.Date postC = BlogPost.Date postD
   \<and> GetBlogPosts (X0\<lparr>sort_Slice := tieReversingSort\<rparr>) W2 =
        map (toEntry (X0\<lparr>sort_Slice := tieReversingSort\<rparr>)) [postD, postC]"
proof -
  let ?X = "X0\<lparr>sort_Slice := tieReversingSort\<rparr>"
  have s: "sort_Slice_sorts ?X"
    by (simp add: sort_Slice_sorts_def newestFirst_def After_def sorted_tieReversingSort
          mset_tieReversingSort)
  have p: "publishedPosts ?X W2 = [postC, postD]"
    by (rule publishedPosts_X0_W2) simp
  have "sort_Slice ?X (\<lambda>pi pj. After (BlogPost.Date pi) (BlogPost.Date pj)) [postC, postD] =
      [postD, postC]"
    by (simp add: tieReversingSort_def After_def postC_def postD_def)
  then show ?thesis
    using s p by (simp add: GetBlogPosts_published [OF s] postC_def postD_def)
qed

lemma ready_index_fields [simp]:
  "lastKey (sessionAfter [WindowSizeMsg 80 24, KeyMsg ''right'' [], KeyMsg ''right'' [],
      KeyMsg ''down'' []]) = []"
  "currentPage (sessionAfter [WindowSizeMsg 80 24, KeyMsg ''right'' [], KeyMsg ''right'' [],
      KeyMsg ''down'' []]) = BlogPage"
  "\<not> viewingBlogEntry (sessionAfter [WindowSizeMsg 80 24, KeyMsg ''right'' [], KeyMsg ''right'' [],
      KeyMsg ''down'' []])"
  "selectedBlogEntry (sessionAfter [WindowSizeMsg 80 24, KeyMsg ''right'' [], KeyMsg ''right'' [],
      KeyMsg ''down'' []]) = 1"
  "ready (sessionAfter [WindowSizeMsg 80 24, KeyMsg ''right'' [], KeyMsg ''right'' [],
      KeyMsg ''down'' []])"
  by (simp_all add: sessionAfter_def Update_WindowSizeMsg Update_moveRight Update_moveDown_index)

subsection \<open>The claims\<close>




text \<open>
  Claim C2 at the go-to-bottom key. In the ready session that has received a geometry
  report and one \<open>g\<close> (so the chord is pending, \<open>lastKey = "g"\<close>), the key \<open>G\<close> is
  handled without a panic and returns a model in which \<open>lastKey\<close> is still \<open>"g"\<close>: the
  \<open>shifted == 'G'\<close> block returns before the assignment that the source comments with
  ``Any other key cancels "g" state''.
\<close>

theorem C2_goto_bottom_keeps_chord:
  "ready (sessionAfter [WindowSizeMsg 80 24, KeyMsg ''g'' [103]])
   \<and> lastKey (sessionAfter [WindowSizeMsg 80 24, KeyMsg ''g'' [103]]) = ''g''
   \<and> (\<exists>m'. Update X0 (sessionAfter [WindowSizeMsg 80 24, KeyMsg ''g'' [103]]) gotoBottomKey =
            Inr (m', None) \<and> lastKey m' = ''g'')"
proof -
  have f: "ready (sessionAfter [WindowSizeMsg 80 24, KeyMsg ''g'' [103]])"
    "lastKey (sessionAfter [WindowSizeMsg 80 24, KeyMsg ''g'' [103]]) = ''g''"
    by (simp_all add: sessionAfter_def Update_WindowSizeMsg Update_chordG_first)
  have "wf (sessionAfter [WindowSizeMsg 80 24, KeyMsg ''g'' [103]])"
    using reachable_sessionAfter by (rule reachable_wf)
  then obtain m' where "jumpBottom X0 (sessionAfter [WindowSizeMsg 80 24, KeyMsg ''g'' [103]]) =
      Inr (m', None)" "lastKey m' = lastKey (sessionAfter [WindowSizeMsg 80 24, KeyMsg ''g'' [103]])"
    using jumpBottom_wf by blast
  then show ?thesis
    using f by (simp add: Update_gotoBottomKey)
qed











text \<open>
  Claim C7. Completing the go-to-top chord is idempotent. From every reachable state,
  ready or not and whether or not a chord is already pending, pressing the chord key
  twice runs without a panic and gives a state \<open>m2\<close>; pressing it twice more gives
  \<open>m2\<close> again, so four presses end in the same state as two. In \<open>m2\<close> the viewport
  offset is 0, and if the session was on the Blog index the first entry is selected.
\<close>

theorem C7_go_top_idempotent:
  assumes "reachable X W m" "chordG g"
  shows "\<exists>m2. runLoop X m [g, g] = Inr m2 \<and> runLoop X m [g, g, g, g] = Inr m2 \<and>
      runLoop X m2 [g, g] = Inr m2 \<and> YOffset (viewport m2) = 0 \<and>
      (currentPage m = BlogPage \<and> \<not> viewingBlogEntry m \<longrightarrow> selectedBlogEntry m2 = 0)"
proof -
  have w: "wf m" using assms(1) by (rule reachable_wf)
  then have s: "0 \<le> selectedBlogEntry m" and y: "0 \<le> YOffset (viewport m)"
    by (simp_all add: wf_def)
  show ?thesis
  proof (cases "lastKey m = ''g''")
    case True
    let ?j = "jumpedTop X m"
    let ?m2 = "?j\<lparr>lastKey := ''g''\<rparr>"
    have 1: "Update X m g = Inr (?j, None)"
      by (rule Update_chordG_pending [OF assms(2) True s])
    have 2: "Update X ?j g = Inr (?m2, None)"
      by (rule Update_chordG_first [OF assms(2)]) simp
    have "0 \<le> selectedBlogEntry ?m2"
      using s by (simp add: selectedBlogEntry_jumpedTop)
    then have "Update X ?m2 g = Inr (jumpedTop X ?m2, None)"
      by (intro Update_chordG_pending [OF assms(2)]) simp_all
    then have 3: "Update X ?m2 g = Inr (?j, None)"
      by (simp only: jumpedTop_again)
    have "runLoop X m [g, g] = Inr ?m2" "runLoop X m [g, g, g, g] = Inr ?m2"
      "runLoop X ?m2 [g, g] = Inr ?m2"
      using 1 2 3 by simp_all
    then show ?thesis
      using y by (intro exI [of _ ?m2]) (simp add: YOffset_jumpedTop selectedBlogEntry_jumpedTop)
  next
    case False
    let ?p = "m\<lparr>lastKey := ''g''\<rparr>"
    let ?m2 = "jumpedTop X ?p"
    have 1: "Update X m g = Inr (?p, None)"
      by (rule Update_chordG_first [OF assms(2) False])
    have 2: "Update X ?p g = Inr (?m2, None)"
      using s by (intro Update_chordG_pending [OF assms(2)]) simp_all
    have 3: "Update X ?m2 g = Inr (?m2\<lparr>lastKey := ''g''\<rparr>, None)"
      by (rule Update_chordG_first [OF assms(2)]) simp
    have "0 \<le> selectedBlogEntry (?m2\<lparr>lastKey := ''g''\<rparr>)"
      using s by (simp add: selectedBlogEntry_jumpedTop)
    then have "Update X (?m2\<lparr>lastKey := ''g''\<rparr>) g =
        Inr (jumpedTop X (?m2\<lparr>lastKey := ''g''\<rparr>), None)"
      by (intro Update_chordG_pending [OF assms(2)]) simp_all
    then have 4: "Update X (?m2\<lparr>lastKey := ''g''\<rparr>) g = Inr (?m2, None)"
      by (simp only: jumpedTop_again)
    have "runLoop X m [g, g] = Inr ?m2" "runLoop X m [g, g, g, g] = Inr ?m2"
      "runLoop X ?m2 [g, g] = Inr ?m2"
      using 1 2 3 4 by simp_all
    then show ?thesis
      using y by (intro exI [of _ ?m2]) (simp add: YOffset_jumpedTop selectedBlogEntry_jumpedTop)
  qed
qed

text \<open>Claim C7, witness: a ready session on the Blog index with the second entry selected.\<close>

theorem C7_go_top_idempotent_witness:
  "reachable X0 W0 (sessionAfter [WindowSizeMsg 80 24, KeyMsg ''right'' [], KeyMsg ''right'' [],
      KeyMsg ''down'' []])
   \<and> ready (sessionAfter [WindowSizeMsg 80 24, KeyMsg ''right'' [], KeyMsg ''right'' [],
      KeyMsg ''down'' []])
   \<and> chordG (KeyMsg ''g'' [103])
   \<and> currentPage (sessionAfter [WindowSizeMsg 80 24, KeyMsg ''right'' [], KeyMsg ''right'' [],
      KeyMsg ''down'' []]) = BlogPage
   \<and> \<not> viewingBlogEntry (sessionAfter [WindowSizeMsg 80 24, KeyMsg ''right'' [], KeyMsg ''right'' [],
      KeyMsg ''down'' []])
   \<and> selectedBlogEntry (sessionAfter [WindowSizeMsg 80 24, KeyMsg ''right'' [], KeyMsg ''right'' [],
      KeyMsg ''down'' []]) = 1
   \<and> (\<exists>m2. runLoop X0 (sessionAfter [WindowSizeMsg 80 24, KeyMsg ''right'' [], KeyMsg ''right'' [],
            KeyMsg ''down'' []]) [KeyMsg ''g'' [103], KeyMsg ''g'' [103]] = Inr m2 \<and>
          runLoop X0 (sessionAfter [WindowSizeMsg 80 24, KeyMsg ''right'' [], KeyMsg ''right'' [],
            KeyMsg ''down'' []])
            [KeyMsg ''g'' [103], KeyMsg ''g'' [103], KeyMsg ''g'' [103], KeyMsg ''g'' [103]] = Inr m2 \<and>
          runLoop X0 m2 [KeyMsg ''g'' [103], KeyMsg ''g'' [103]] = Inr m2 \<and>
          YOffset (viewport m2) = 0 \<and> selectedBlogEntry m2 = 0)"
  using C7_go_top_idempotent [OF reachable_sessionAfter,
      of "KeyMsg ''g'' [103]" "[WindowSizeMsg 80 24, KeyMsg ''right'' [], KeyMsg ''right'' [],
      KeyMsg ''down'' []]"]
  by (simp add: reachable_sessionAfter del: pages_simps runLoop.simps)




text \<open>
  Claim C9. For every width the caller passes, \<open>renderMarkdownForDisplay\<close> renders at
  the width \<open>displayWidth width\<close>: it is \<open>width - 8\<close>, and the floor 40 whenever
  \<open>width - 8\<close> is below 40 as Go's signed comparison sees it. The width is therefore never
  below 40, and the word-wrap width that reaches glamour, four less, is never below 36;
  in particular it is positive. For every width whose subtraction does not wrap, the
  result is the larger of 40 and \<open>width - 8\<close> in the integers; for the few widths at the
  bottom of the range where \<open>width - 8\<close> wraps, Go compares the wrapped value, which is
  large and positive, and the bound 40 holds all the same.
\<close>

theorem C9_display_width_floor:
  "renderMarkdownForDisplay X content w =
     (case glamour_NewTermRenderer X (displayWidth w - 4) of
        None \<Rightarrow> content
      | Some r \<Rightarrow> (case r content of None \<Rightarrow> content | Some rendered \<Rightarrow> rendered))
   \<and> 40 \<le>s displayWidth w
   \<and> 36 \<le>s displayWidth w - 4
   \<and> (w - 8 <s 40 \<longrightarrow> displayWidth w = 40)
   \<and> (\<not> w - 8 <s 40 \<longrightarrow> displayWidth w = w - 8)
   \<and> (- (2 ^ 63) + 8 \<le> sint w \<longrightarrow> sint (displayWidth w) = max 40 (sint w - 8))"
  using displayWidth_floor [of w] displayWidth_wrap [of w] displayWidth_exact [of w]
  by (simp add: renderMarkdownForDisplay_def renderMarkdown_def displayWidth_def Let_def)

text \<open>Claim C9, witness: the widths 10 (below the floor) and 100 (above it).\<close>

theorem C9_display_width_floor_witness:
  "(10 :: goint) - 8 <s 40 \<and> displayWidth 10 = 40 \<and> 36 \<le>s displayWidth 10 - 4
   \<and> \<not> (100 :: goint) - 8 <s 40 \<and> displayWidth 100 = 92
   \<and> - (2 ^ 63) + 8 \<le> sint (10 :: goint) \<and> sint (displayWidth 10) = 40
   \<and> renderMarkdownForDisplay X0 ''# A'' 10 = ''# A''"
  using C9_display_width_floor [of X0 "''# A''" 10] C9_display_width_floor [of X0 "''# A''" 100]
  by (simp add: X0_def word_sless_alt)

text \<open>
  Claim C10. \<open>getBlogEntryContent\<close> never indexes the entries out of range in a state the
  session can be in. For every model, reachable or not, whose selection is at or beyond
  the number of entries, it returns the rendered placeholder ``Blog entry not found''
  without touching the list. In every reachable state the selection is a valid index, so
  the access is within bounds and the function returns a page. (The function itself has
  no guard against a negative selection; that no reachable state has one is part of the
  statement.)
\<close>

theorem C10_detail_index_in_bounds:
  "(int (length (blogEntries m)) \<le> selectedBlogEntry m \<longrightarrow>
      getBlogEntryContent X m = Inr (Render X contentStyle ''Blog entry not found''))
   \<and> (reachable X W m \<longrightarrow>
      0 \<le> selectedBlogEntry m \<and> nat (selectedBlogEntry m) < length (blogEntries m) \<and>
      (\<exists>page. getBlogEntryContent X m = Inr page))"
proof -
  have "0 \<le> selectedBlogEntry m \<and> nat (selectedBlogEntry m) < length (blogEntries m) \<and>
      (\<exists>page. getBlogEntryContent X m = Inr page)" if "reachable X W m"
  proof -
    have "wf m" using that by (rule reachable_wf)
    then have "0 \<le> selectedBlogEntry m" "selectedBlogEntry m < int (length (blogEntries m))"
      by (simp_all add: wf_def)
    moreover from this have "nat (selectedBlogEntry m) < length (blogEntries m)"
      by linarith
    ultimately show ?thesis by (simp add: getBlogEntryContent_def Let_def)
  qed
  then show ?thesis by (simp add: getBlogEntryContent_def)
qed

text \<open>Claim C10, witness: a model whose selection 2 equals the number of entries, and the first state of the session.\<close>

theorem C10_detail_index_in_bounds_witness:
  "int (length (blogEntries ((NewModel X0 W0 80 24)\<lparr>selectedBlogEntry := 2\<rparr>))) \<le>
      selectedBlogEntry ((NewModel X0 W0 80 24)\<lparr>selectedBlogEntry := 2\<rparr>)
   \<and> getBlogEntryContent X0 ((NewModel X0 W0 80 24)\<lparr>selectedBlogEntry := 2\<rparr>) =
        Inr ''Blog entry not found''
   \<and> reachable X0 W0 (NewModel X0 W0 80 24)
   \<and> selectedBlogEntry (NewModel X0 W0 80 24) = 0
   \<and> length (blogEntries (NewModel X0 W0 80 24)) = 2
   \<and> (\<exists>page. getBlogEntryContent X0 (NewModel X0 W0 80 24) = Inr page)"
proof -
  have r: "reachable X0 W0 (NewModel X0 W0 80 24)" by (rule reachable.start)
  have l: "length (blogEntries (NewModel X0 W0 80 24)) = 2"
    by (simp add: blogEntries_NewModel GetBlogPosts_X0_W0)
  have s: "selectedBlogEntry (NewModel X0 W0 80 24) = 0" by (simp add: NewModel_def Let_def)
  have x: "Render X0 contentStyle ''Blog entry not found'' = ''Blog entry not found''"
    by (simp add: X0_def)
  show ?thesis
    using C10_detail_index_in_bounds [of "(NewModel X0 W0 80 24)\<lparr>selectedBlogEntry := 2\<rparr>" X0 W0]
      C10_detail_index_in_bounds [of "NewModel X0 W0 80 24" X0 W0] r l s x
    by simp
qed


end
